theory Spec2Isabelle
  imports Complex_Main
begin

section \<open>Python values\<close>

text \<open>
  The server handles decoded JSON documents: Python's \<open>None\<close>, booleans, integers,
  floats, strings, lists and dictionaries. A dictionary is an association list in
  insertion order; a key is looked up with \<open>map_of\<close>, so the first binding of a key is
  the dictionary's. A \<open>string\<close> is a list of code points below 256.

  A float is a binary64 value: a real number (the two zeros are not told apart), an
  infinity, or not a number.
\<close>

datatype pyfloat = Fin real | PosInf | NegInf | NaN

datatype json =
    JNull
  | JBool bool
  | JInt int
  | JNum pyfloat
  | JStr string
  | JArr "json list"
  | JObj "(string \<times> json) list"

text \<open>The response object of the HTTP library, as far as the server reads it:
  \<open>status_code\<close>, \<open>content\<close> (the body's bytes) and the outcome of \<open>json()\<close>
  (\<open>None\<close> when the body does not decode).\<close>

record response =
  status_code :: int
  content :: string
  json_result :: "json option"

datatype py_error =
    KeyError string
  | TypeError
  | AttributeError
  | JSONDecodeError
  | OverflowError
  | RequestError
  | HTTPStatusError response

text \<open>Truth value of an object in a condition (\<open>if x\<close>, \<open>x or y\<close>).\<close>

fun truthy :: "json \<Rightarrow> bool" where
  "truthy JNull = False"
| "truthy (JBool b) = b"
| "truthy (JInt i) = (i \<noteq> 0)"
| "truthy (JNum f) = (f \<noteq> Fin 0)"
| "truthy (JStr s) = (s \<noteq> [])"
| "truthy (JArr xs) = (xs \<noteq> [])"
| "truthy (JObj kvs) = (kvs \<noteq> [])"

text \<open>\<open>d[k]\<close> with a string key: \<open>KeyError\<close> on a dictionary without the key,
  \<open>TypeError\<close> on everything that is not a dictionary.\<close>

fun getitem :: "json \<Rightarrow> string \<Rightarrow> py_error + json" where
  "getitem (JObj kvs) k = (case map_of kvs k of None \<Rightarrow> Inl (KeyError k) | Some v \<Rightarrow> Inr v)"
| "getitem _ k = Inl TypeError"

text \<open>\<open>d.get(k, default)\<close>: only dictionaries have the method.\<close>

fun get_default :: "json \<Rightarrow> string \<Rightarrow> json \<Rightarrow> py_error + json" where
  "get_default (JObj kvs) k d = Inr (case map_of kvs k of None \<Rightarrow> d | Some v \<Rightarrow> v)"
| "get_default _ k d = Inl AttributeError"

definition get :: "json \<Rightarrow> string \<Rightarrow> py_error + json" where
  "get j k = get_default j k JNull"

text \<open>The elements a \<open>for\<close> loop or a comprehension visits: the members of a list, the
  characters of a string, the keys of a dictionary; nothing else is iterable.\<close>

fun iterate :: "json \<Rightarrow> py_error + json list" where
  "iterate (JArr xs) = Inr xs"
| "iterate (JStr s) = Inr (map (\<lambda>c. JStr [c]) s)"
| "iterate (JObj kvs) = Inr (map (\<lambda>kv. JStr (fst kv)) kvs)"
| "iterate _ = Inl TypeError"

text \<open>A loop body that may raise, run over a list: the first exception ends the loop.\<close>

fun map_err :: "('a \<Rightarrow> py_error + 'b) \<Rightarrow> 'a list \<Rightarrow> py_error + 'b list" where
  "map_err f [] = Inr []"
| "map_err f (x # xs) =
     (case f x of
        Inl e \<Rightarrow> Inl e
      | Inr y \<Rightarrow> (case map_err f xs of Inl e \<Rightarrow> Inl e | Inr ys \<Rightarrow> Inr (y # ys)))"

subsection \<open>Floats\<close>

text \<open>Rounding to the nearest integer, a tie to the even one.\<close>

definition rne :: "real \<Rightarrow> int" where
  "rne y =
     (if y - of_int \<lfloor>y\<rfloor> < 1 / 2 then \<lfloor>y\<rfloor>
      else if 1 / 2 < y - of_int \<lfloor>y\<rfloor> then \<lfloor>y\<rfloor> + 1
      else if even \<lfloor>y\<rfloor> then \<lfloor>y\<rfloor> else \<lfloor>y\<rfloor> + 1)"

text \<open>
  The binary64 value nearest to a real inside the range, a tie going to the even
  significand: with \<open>e\<close> the exponent of \<open>x\<close> (not below \<open>-1022\<close>, where the subnormal numbers
  start), the values around \<open>x\<close> are the multiples of \<open>2 ^ (e - 52)\<close>.
\<close>

definition round64 :: "real \<Rightarrow> real" where
  "round64 x =
     (if x = 0 then 0
      else (let e = max \<lfloor>log 2 \<bar>x\<bar>\<rfloor> (- 1022); u = 2 powr of_int (e - 52)
            in of_int (rne (x / u)) * u))"

text \<open>The largest binary64 value is \<open>2 ^ 1024 - 2 ^ 971\<close>; from half a step above it,
  rounding leaves the range.\<close>

definition overflow_bound :: real where
  "overflow_bound = 2 ^ 1024 - 2 ^ 970"

text \<open>The float an arithmetic operation returns for the exact result \<open>s\<close>.\<close>

definition to_float :: "real \<Rightarrow> pyfloat" where
  "to_float s =
     (if overflow_bound \<le> s then PosInf
      else if s \<le> - overflow_bound then NegInf
      else Fin (round64 s))"

text \<open>
  \<open>t + x\<close> for the finite float \<open>t\<close> that \<open>time.time()\<close> returned. An integer is
  converted to a float first, which raises \<open>OverflowError\<close> when it rounds out of the
  range; a boolean counts as 1 or 0; an infinite or undefined float stays what it is;
  everything else is a \<open>TypeError\<close>.
\<close>

fun float_add :: "real \<Rightarrow> json \<Rightarrow> py_error + pyfloat" where
  "float_add t (JInt i) =
     (if \<bar>i\<bar> < 2 ^ 1024 - 2 ^ 970 then Inr (to_float (t + round64 (of_int i)))
      else Inl OverflowError)"
| "float_add t (JNum f) = Inr (case f of Fin r \<Rightarrow> to_float (t + r) | _ \<Rightarrow> f)"
| "float_add t (JBool b) = Inr (to_float (t + (if b then 1 else 0)))"
| "float_add t _ = Inl TypeError"

text \<open>\<open>t < f\<close> for the finite float \<open>t\<close> that \<open>time.time()\<close> returned.\<close>

fun float_less :: "real \<Rightarrow> pyfloat \<Rightarrow> bool" where
  "float_less t (Fin r) = (t < r)"
| "float_less t PosInf = True"
| "float_less t NegInf = False"
| "float_less t NaN = False"

subsection \<open>Strings\<close>

text \<open>\<open>str.isspace\<close> on one character, for the code points below 256.\<close>

definition isspace :: "char \<Rightarrow> bool" where
  "isspace c = ((of_char c :: nat) \<in> {9, 10, 11, 12, 13, 28, 29, 30, 31, 32, 133, 160})"

text \<open>\<open>s.strip()\<close>\<close>

definition strip :: "string \<Rightarrow> string" where
  "strip s = rev (dropWhile isspace (rev (dropWhile isspace s)))"

text \<open>\<open>s.split(c)\<close> for a separator of one character: every occurrence separates,
  and the empty string gives one empty piece.\<close>

fun split :: "char \<Rightarrow> string \<Rightarrow> string list" where
  "split c [] = [[]]"
| "split c (x # xs) =
     (if x = c then [] # split c xs
      else (case split c xs of [] \<Rightarrow> [[x]] | w # ws \<Rightarrow> (x # w) # ws))"

section \<open>HTTP requests and the world a call runs in\<close>

datatype verb = GET | POST | PUT

text \<open>How the arguments travel: \<open>params=\<close> (query string), \<open>data=\<close> (form) or
  \<open>json=\<close> (body).\<close>

datatype payload = Params json | Data json | Json json

text \<open>A request as the server hands it to the HTTP client. \<open>auth\<close> is the token
  formatted into the \<open>Authorization: Bearer\<close> header, when there is one.\<close>

record request =
  verb :: verb
  url :: string
  auth :: "json option"
  payload :: payload

text \<open>What comes back: a response, or an exception of the transport.\<close>

datatype reply = TransportError | Reply response

text \<open>
  One tool call reads the clock at most twice and sends at most one request to the token
  endpoint and one to the Web API. The environment fixes what the world answers:
  the clock when the cache is checked, the token endpoint's reply, the clock when the new
  expiry is computed, and the Web API's reply.
\<close>

record env =
  clock_check :: real
  token_reply :: reply
  clock_store :: real
  api_reply :: reply

text \<open>The values read from the process environment at start.\<close>

record config =
  CLIENT_ID :: "string option"
  CLIENT_SECRET :: "string option"
  REFRESH_TOKEN :: "string option"

definition API_URL :: string where
  "API_URL = ''https://api.spotify.com/v1''"

text \<open>The module's two globals.\<close>

record store =
  access_token :: json
  expires_at :: pyfloat

definition initial_store :: store where
  "initial_store = \<lparr>access_token = JNull, expires_at = Fin 0\<rparr>"

section \<open>The access token\<close>

definition env_str :: "string option \<Rightarrow> json" where
  "env_str v = (case v of None \<Rightarrow> JNull | Some s \<Rightarrow> JStr s)"

definition token_request :: "config \<Rightarrow> request" where
  "token_request cfg =
     \<lparr>verb = POST,
      url = ''https://accounts.spotify.com/api/token'',
      auth = None,
      payload = Data (JObj
        [(''grant_type'', JStr ''refresh_token''),
         (''refresh_token'', env_str (REFRESH_TOKEN cfg)),
         (''client_id'', env_str (CLIENT_ID cfg)),
         (''client_secret'', env_str (CLIENT_SECRET cfg))])\<rparr>"

text \<open>\<open>resp.raise_for_status()\<close>: an \<open>HTTPStatusError\<close> unless the status is 2xx.\<close>

definition is_success :: "response \<Rightarrow> bool" where
  "is_success r = (200 \<le> status_code r \<and> status_code r \<le> 299)"

definition raise_for_status :: "response \<Rightarrow> py_error + unit" where
  "raise_for_status r = (if is_success r then Inr () else Inl (HTTPStatusError r))"

text \<open>\<open>resp.json()\<close>\<close>

definition resp_json :: "response \<Rightarrow> py_error + json" where
  "resp_json r = (case json_result r of None \<Rightarrow> Inl JSONDecodeError | Some j \<Rightarrow> Inr j)"

text \<open>
  \<open>get_access_token\<close> returns its result, the globals as it leaves them, and the requests
  it sent. The token is assigned before the expiry is computed, so an exception in
  the second assignment leaves the first one done.
\<close>

definition get_access_token ::
  "config \<Rightarrow> env \<Rightarrow> store \<Rightarrow> (py_error + json) \<times> store \<times> request list" where
  "get_access_token cfg e st =
     (if truthy (access_token st) \<and> float_less (clock_check e) (expires_at st)
      then (Inr (access_token st), st, [])
      else
        (case token_reply e of
           TransportError \<Rightarrow> (Inl RequestError, st, [token_request cfg])
         | Reply resp \<Rightarrow>
            (case raise_for_status resp of
               Inl err \<Rightarrow> (Inl err, st, [token_request cfg])
             | Inr _ \<Rightarrow>
                (case resp_json resp of
                   Inl err \<Rightarrow> (Inl err, st, [token_request cfg])
                 | Inr data \<Rightarrow>
                    (case getitem data ''access_token'' of
                       Inl err \<Rightarrow> (Inl err, st, [token_request cfg])
                     | Inr tok \<Rightarrow>
                        (let st1 = st\<lparr>access_token := tok\<rparr> in
                         (case getitem data ''expires_in'' of
                            Inl err \<Rightarrow> (Inl err, st1, [token_request cfg])
                          | Inr secs \<Rightarrow>
                             (case float_add (clock_store e) secs of
                                Inl err \<Rightarrow> (Inl err, st1, [token_request cfg])
                              | Inr t \<Rightarrow>
                                 (let st2 = st1\<lparr>expires_at := t\<rparr>
                                  in (Inr (access_token st2), st2, [token_request cfg]))))))))))"

subsection \<open>Calls in flight at the same time\<close>

text \<open>
  \<open>get_access_token\<close> is a coroutine with one point where it waits:
  \<open>await client.post(...)\<close>. Up to there it runs without interruption (the test of the
  cache, and the request handed to the client), and so it does from there to its end (the
  lines after the \<open>async with\<close> block); while it waits, other calls run. The first
  part either returns the cached token or leaves the call waiting for its reply.
\<close>

datatype checked = Cached json | Awaiting request

definition token_check :: "config \<Rightarrow> real \<Rightarrow> store \<Rightarrow> checked" where
  "token_check cfg now st =
     (if truthy (access_token st) \<and> float_less now (expires_at st)
      then Cached (access_token st)
      else Awaiting (token_request cfg))"

text \<open>The second part: \<open>resp.raise_for_status()\<close> to \<open>return access_token\<close>, on the
  globals as they are when the reply is handled.\<close>

definition token_finish :: "reply \<Rightarrow> real \<Rightarrow> store \<Rightarrow> (py_error + json) \<times> store" where
  "token_finish rep now st =
     (case rep of
        TransportError \<Rightarrow> (Inl RequestError, st)
      | Reply resp \<Rightarrow>
         (case raise_for_status resp of
            Inl err \<Rightarrow> (Inl err, st)
          | Inr _ \<Rightarrow>
             (case resp_json resp of
                Inl err \<Rightarrow> (Inl err, st)
              | Inr data \<Rightarrow>
                 (case getitem data ''access_token'' of
                    Inl err \<Rightarrow> (Inl err, st)
                  | Inr tok \<Rightarrow>
                     (let st1 = st\<lparr>access_token := tok\<rparr> in
                      (case getitem data ''expires_in'' of
                         Inl err \<Rightarrow> (Inl err, st1)
                       | Inr secs \<Rightarrow>
                          (case float_add now secs of
                             Inl err \<Rightarrow> (Inl err, st1)
                           | Inr t \<Rightarrow>
                              (let st2 = st1\<lparr>expires_at := t\<rparr>
                               in (Inr (access_token st2), st2)))))))))"

text \<open>
  Several calls issued together, each with its own clock readings and its own reply from
  the token endpoint: every call runs its first part before any reply is handled, so
  all of them test the same globals; then the replies are handled in the order of the
  list, each call's second part on the globals the earlier ones left.
\<close>

fun finish_waiting :: "(checked \<times> env) list \<Rightarrow> store \<Rightarrow> (py_error + json) list \<times> store" where
  "finish_waiting [] st = ([], st)"
| "finish_waiting ((Cached tok, e) # ws) st =
     (case finish_waiting ws st of (rs, st') \<Rightarrow> (Inr tok # rs, st'))"
| "finish_waiting ((Awaiting req, e) # ws) st =
     (case token_finish (token_reply e) (clock_store e) st of
        (r, st1) \<Rightarrow> (case finish_waiting ws st1 of (rs, st') \<Rightarrow> (r # rs, st')))"

text \<open>The requests the first parts sent.\<close>

fun requests_of :: "checked list \<Rightarrow> request list" where
  "requests_of [] = []"
| "requests_of (Cached tok # cs) = requests_of cs"
| "requests_of (Awaiting req # cs) = req # requests_of cs"

definition concurrent_calls ::
  "config \<Rightarrow> env list \<Rightarrow> store \<Rightarrow> (py_error + json) list \<times> store \<times> request list" where
  "concurrent_calls cfg es st =
     (let cs = map (\<lambda>e. token_check cfg (clock_check e) st) es
      in (case finish_waiting (zip cs es) st of (rs, st') \<Rightarrow> (rs, st', requests_of cs)))"

section \<open>The request wrappers\<close>

text \<open>The last two lines of \<open>spotify_get\<close> and \<open>spotify_post\<close>:
  \<open>resp.raise_for_status(); return resp.json()\<close>.\<close>

definition checked_json :: "response \<Rightarrow> py_error + json" where
  "checked_json r = (case raise_for_status r of Inl err \<Rightarrow> Inl err | Inr _ \<Rightarrow> resp_json r)"

definition api_request :: "verb \<Rightarrow> string \<Rightarrow> json \<Rightarrow> payload \<Rightarrow> request" where
  "api_request v path token p = \<lparr>verb = v, url = API_URL @ path, auth = Some token, payload = p\<rparr>"

definition spotify_get ::
  "config \<Rightarrow> env \<Rightarrow> store \<Rightarrow> string \<Rightarrow> json \<Rightarrow> (py_error + json) \<times> store \<times> request list" where
  "spotify_get cfg e st path params =
     (case get_access_token cfg e st of
        (Inl err, st', sent) \<Rightarrow> (Inl err, st', sent)
      | (Inr token, st', sent) \<Rightarrow>
         (case api_reply e of
            TransportError \<Rightarrow>
              (Inl RequestError, st', sent @ [api_request GET path token (Params params)])
          | Reply resp \<Rightarrow>
              (checked_json resp, st', sent @ [api_request GET path token (Params params)])))"

definition spotify_post ::
  "config \<Rightarrow> env \<Rightarrow> store \<Rightarrow> string \<Rightarrow> json \<Rightarrow> (py_error + json) \<times> store \<times> request list" where
  "spotify_post cfg e st path params =
     (case get_access_token cfg e st of
        (Inl err, st', sent) \<Rightarrow> (Inl err, st', sent)
      | (Inr token, st', sent) \<Rightarrow>
         (case api_reply e of
            TransportError \<Rightarrow>
              (Inl RequestError, st', sent @ [api_request POST path token (Json params)])
          | Reply resp \<Rightarrow>
              (checked_json resp, st', sent @ [api_request POST path token (Json params)])))"

definition status_ok :: json where
  "status_ok = JObj [(''status'', JStr ''ok'')]"

definition spotify_put ::
  "config \<Rightarrow> env \<Rightarrow> store \<Rightarrow> string \<Rightarrow> json \<Rightarrow> (py_error + json) \<times> store \<times> request list" where
  "spotify_put cfg e st path params =
     (case get_access_token cfg e st of
        (Inl err, st', sent) \<Rightarrow> (Inl err, st', sent)
      | (Inr token, st', sent) \<Rightarrow>
         (case api_reply e of
            TransportError \<Rightarrow>
              (Inl RequestError, st', sent @ [api_request PUT path token (Json params)])
          | Reply resp \<Rightarrow>
              (if status_code resp = 204 \<or> status_code resp = 200 \<or> content resp = []
               then Inr status_ok
               else checked_json resp,
               st', sent @ [api_request PUT path token (Json params)])))"

section \<open>The tools\<close>

text \<open>Sequencing of two steps of which the first may raise.\<close>

definition and_then :: "py_error + 'a \<Rightarrow> ('a \<Rightarrow> py_error + 'b) \<Rightarrow> py_error + 'b" where
  "and_then r f = (case r of Inl e \<Rightarrow> Inl e | Inr v \<Rightarrow> f v)"

text \<open>\<open>[a.get("name") for a in xs]\<close>\<close>

definition names_of :: "json \<Rightarrow> py_error + json" where
  "names_of xs =
     and_then (iterate xs) (\<lambda>as.
     and_then (map_err (\<lambda>a. get a ''name'') as) (\<lambda>ns. Inr (JArr ns)))"

subsection \<open>search_spotify\<close>

text \<open>The dictionary appended for one item of the search result.\<close>

definition search_item :: "json \<Rightarrow> py_error + json" where
  "search_item item =
     and_then (get item ''id'') (\<lambda>i.
     and_then (get item ''name'') (\<lambda>n.
     and_then (get item ''uri'') (\<lambda>u.
     and_then
       (and_then (get item ''artists'') (\<lambda>a.
          if truthy a then and_then (get_default item ''artists'' (JArr [])) names_of
          else Inr JNull)) (\<lambda>ar.
     and_then
       (and_then (get item ''album'') (\<lambda>a.
          if truthy a
          then and_then (get_default item ''album'' (JObj [])) (\<lambda>al. get al ''name'')
          else Inr JNull)) (\<lambda>al.
     Inr (JObj [(''id'', i), (''name'', n), (''uri'', u), (''artists'', ar), (''album'', al)]))))))"

text \<open>\<open>raw[container]["items"]\<close> under \<open>try\<close>, with \<open>except Exception: items = []\<close>.\<close>

definition search_items :: "string \<Rightarrow> json \<Rightarrow> json" where
  "search_items search_type raw =
     (case and_then (getitem raw (search_type @ ''s'')) (\<lambda>c. getitem c ''items'') of
        Inl _ \<Rightarrow> JArr []
      | Inr items \<Rightarrow> items)"

text \<open>Everything \<open>search_spotify\<close> does with the document \<open>spotify_get\<close> returned.\<close>

definition search_normalize :: "string \<Rightarrow> json \<Rightarrow> py_error + json" where
  "search_normalize search_type raw =
     and_then (iterate (search_items search_type raw)) (\<lambda>items.
     and_then (map_err search_item items) (\<lambda>cleaned.
     Inr (JObj [(''type'', JStr search_type), (''items'', JArr cleaned)])))"

definition search_spotify ::
  "config \<Rightarrow> env \<Rightarrow> store \<Rightarrow> string \<Rightarrow> string \<Rightarrow> int
     \<Rightarrow> (py_error + json) \<times> store \<times> request list" where
  "search_spotify cfg e st query search_type limit =
     (case spotify_get cfg e st ''/search''
             (JObj [(''q'', JStr query), (''type'', JStr search_type), (''limit'', JInt limit)]) of
        (Inl err, st', sent) \<Rightarrow> (Inl err, st', sent)
      | (Inr raw, st', sent) \<Rightarrow> (search_normalize search_type raw, st', sent))"

subsection \<open>artist_top_tracks\<close>

definition top_track_item :: "json \<Rightarrow> py_error + json" where
  "top_track_item t =
     and_then (get t ''id'') (\<lambda>i.
     and_then (get t ''name'') (\<lambda>n.
     and_then (get t ''uri'') (\<lambda>u.
     and_then (and_then (get_default t ''artists'' (JArr [])) names_of) (\<lambda>ar.
     and_then (and_then (get_default t ''album'' (JObj [])) (\<lambda>al. get al ''name'')) (\<lambda>al.
     and_then (get t ''popularity'') (\<lambda>p.
     Inr (JObj [(''id'', i), (''name'', n), (''uri'', u), (''artists'', ar), (''album'', al),
                (''popularity'', p)])))))))"

definition artist_top_tracks_normalize :: "json \<Rightarrow> py_error + json" where
  "artist_top_tracks_normalize raw =
     and_then (get_default raw ''tracks'' (JArr [])) (\<lambda>ts.
     and_then (iterate ts) (\<lambda>tracks.
     and_then (map_err top_track_item tracks) (\<lambda>cleaned.
     Inr (JObj [(''tracks'', JArr cleaned)]))))"

definition artist_top_tracks ::
  "config \<Rightarrow> env \<Rightarrow> store \<Rightarrow> string \<Rightarrow> string \<Rightarrow> (py_error + json) \<times> store \<times> request list" where
  "artist_top_tracks cfg e st artist_id market =
     (case spotify_get cfg e st (''/artists/'' @ artist_id @ ''/top-tracks'')
             (JObj [(''market'', JStr market)]) of
        (Inl err, st', sent) \<Rightarrow> (Inl err, st', sent)
      | (Inr raw, st', sent) \<Rightarrow> (artist_top_tracks_normalize raw, st', sent))"

subsection \<open>current_user_top_tracks\<close>

definition ranked_item :: "int \<times> json \<Rightarrow> py_error + json" where
  "ranked_item p =
     (case p of (idx, t) \<Rightarrow>
        and_then (get t ''id'') (\<lambda>i.
        and_then (get t ''name'') (\<lambda>n.
        and_then (get t ''uri'') (\<lambda>u.
        and_then (and_then (get_default t ''artists'' (JArr [])) names_of) (\<lambda>ar.
        and_then (and_then (get_default t ''album'' (JObj [])) (\<lambda>al. get al ''name'')) (\<lambda>al.
        Inr (JObj [(''rank'', JInt idx), (''id'', i), (''name'', n), (''uri'', u),
                   (''artists'', ar), (''album'', al)])))))))"

text \<open>\<open>enumerate(items, start=1)\<close> on the elements already listed.\<close>

definition enumerate1 :: "'a list \<Rightarrow> (int \<times> 'a) list" where
  "enumerate1 xs = zip (map int [1 ..< Suc (length xs)]) xs"

definition current_user_top_tracks_normalize :: "json \<Rightarrow> py_error + json" where
  "current_user_top_tracks_normalize raw =
     and_then (get_default raw ''items'' (JArr [])) (\<lambda>got.
     and_then (iterate (if truthy got then got else JArr [])) (\<lambda>items.
     and_then (map_err ranked_item (enumerate1 items)) (\<lambda>cleaned.
     Inr (JArr cleaned))))"

definition current_user_top_tracks ::
  "config \<Rightarrow> env \<Rightarrow> store \<Rightarrow> string \<Rightarrow> int \<Rightarrow> (py_error + json) \<times> store \<times> request list" where
  "current_user_top_tracks cfg e st time_range limit =
     (case spotify_get cfg e st ''/me/top/tracks''
             (JObj [(''time_range'', JStr time_range), (''limit'', JInt limit)]) of
        (Inl err, st', sent) \<Rightarrow> (Inl err, st', sent)
      | (Inr raw, st', sent) \<Rightarrow> (current_user_top_tracks_normalize raw, st', sent))"

subsection \<open>get_playlist_items\<close>

text \<open>\<open>[a["name"] for a in xs]\<close>\<close>

definition names_strict :: "json \<Rightarrow> py_error + json" where
  "names_strict xs =
     and_then (iterate xs) (\<lambda>as.
     and_then (map_err (\<lambda>a. getitem a ''name'') as) (\<lambda>ns. Inr (JArr ns)))"

definition playlist_entry :: "json \<Rightarrow> py_error + json" where
  "playlist_entry entry =
     and_then (getitem entry ''track'') (\<lambda>track.
     and_then (getitem track ''id'') (\<lambda>i.
     and_then (getitem track ''name'') (\<lambda>n.
     and_then (getitem track ''uri'') (\<lambda>u.
     and_then (and_then (getitem track ''artists'') names_strict) (\<lambda>ar.
     and_then (and_then (getitem track ''album'') (\<lambda>al. getitem al ''name'')) (\<lambda>al.
     and_then (getitem track ''explicit'') (\<lambda>ex.
     Inr (JObj [(''id'', i), (''name'', n), (''uri'', u), (''artists'', ar), (''album'', al),
                (''explicit'', ex)]))))))))"

definition get_playlist_items_normalize :: "int \<Rightarrow> int \<Rightarrow> json \<Rightarrow> py_error + json" where
  "get_playlist_items_normalize limit offset raw =
     and_then (getitem raw ''items'') (\<lambda>its.
     and_then (getitem raw ''total'') (\<lambda>total.
     and_then (iterate its) (\<lambda>items.
     and_then (map_err playlist_entry items) (\<lambda>cleaned.
     Inr (JObj [(''total_tracks'', total), (''returned'', JInt (int (length cleaned))),
                (''limit'', JInt limit), (''offset'', JInt offset),
                (''items'', JArr cleaned)])))))"

definition get_playlist_items ::
  "config \<Rightarrow> env \<Rightarrow> store \<Rightarrow> string \<Rightarrow> int \<Rightarrow> int \<Rightarrow> (py_error + json) \<times> store \<times> request list" where
  "get_playlist_items cfg e st playlist_id limit offset =
     (case spotify_get cfg e st (''/playlists/'' @ playlist_id @ ''/tracks'')
             (JObj [(''limit'', JInt limit), (''offset'', JInt offset)]) of
        (Inl err, st', sent) \<Rightarrow> (Inl err, st', sent)
      | (Inr raw, st', sent) \<Rightarrow> (get_playlist_items_normalize limit offset raw, st', sent))"

subsection \<open>add_to_playlist and start_playback\<close>

text \<open>\<open>[u.strip() for u in s.split(',')]\<close>\<close>

definition uri_list :: "string \<Rightarrow> string list" where
  "uri_list s = map strip (split CHR '','' s)"

definition add_to_playlist ::
  "config \<Rightarrow> env \<Rightarrow> store \<Rightarrow> string \<Rightarrow> string \<Rightarrow> (py_error + json) \<times> store \<times> request list" where
  "add_to_playlist cfg e st playlist_id track_uri =
     spotify_post cfg e st (''/playlists/'' @ playlist_id @ ''/tracks'')
       (JObj [(''uris'', JArr (map JStr (uri_list track_uri)))])"

text \<open>The value bound to \<open>uris\<close> in \<open>start_playback\<close>: the list if \<open>track_uris\<close> is
  a non-empty string, \<open>None\<close> if it is \<open>None\<close> or empty.\<close>

definition playback_uris :: "string option \<Rightarrow> json" where
  "playback_uris track_uris =
     (case track_uris of
        None \<Rightarrow> JNull
      | Some s \<Rightarrow> if truthy (JStr s) then JArr (map JStr (uri_list s)) else JNull)"

definition start_playback ::
  "config \<Rightarrow> env \<Rightarrow> store \<Rightarrow> string option \<Rightarrow> string option \<Rightarrow> int option
     \<Rightarrow> (py_error + json) \<times> store \<times> request list" where
  "start_playback cfg e st context_uri track_uris position_ms =
     spotify_put cfg e st ''/me/player/play''
       (JObj [(''context_uri'', env_str context_uri),
              (''uris'', playback_uris track_uris),
              (''position_ms'', (case position_ms of None \<Rightarrow> JNull | Some ms \<Rightarrow> JInt ms))])"

subsection \<open>Reading a field\<close>

text \<open>The value a dictionary holds for a key, and \<open>None\<close> where it has none; a shorthand
  for the statements below.\<close>

abbreviation field_or_null :: "(string \<times> json) list \<Rightarrow> string \<Rightarrow> json" where
  "field_or_null kvs k \<equiv> (case map_of kvs k of None \<Rightarrow> JNull | Some v \<Rightarrow> v)"

section \<open>Sample values\<close>

text \<open>A configuration for the concrete runs below; its content matters to no result.\<close>

definition sample_config :: config where
  "sample_config =
     \<lparr>CLIENT_ID = Some ''id'', CLIENT_SECRET = Some ''secret'', REFRESH_TOKEN = Some ''refresh''\<rparr>"

section \<open>Floats: integers below \<open>2 ^ 53\<close> are exact\<close>

lemma rne_of_int: "rne (of_int k) = k"
  by (simp add: rne_def)

lemma round64_of_int:
  assumes "\<bar>n\<bar> < 2 ^ 53"
  shows "round64 (of_int n) = of_int n"
proof (cases "n = 0")
  case True
  then show ?thesis by (simp add: round64_def)
next
  case False
  define x :: real where "x = of_int n"
  have x1: "1 \<le> \<bar>x\<bar>" using False by (simp add: x_def flip: of_int_abs)
  have x2: "\<bar>x\<bar> < 2 ^ 53" using assms unfolding x_def
    by (metis of_int_abs of_int_less_iff of_int_numeral of_int_power)
  define e where "e = \<lfloor>log 2 \<bar>x\<bar>\<rfloor>"
  have e0: "0 \<le> e" using x1 by (simp add: e_def)
  have "log 2 \<bar>x\<bar> < 53"
  proof -
    have "0 < \<bar>x\<bar>" using x1 by linarith
    then have "log 2 \<bar>x\<bar> < log 2 ((2::real) ^ 53)"
      using x2 by (subst log_less_cancel_iff) simp_all
    moreover have "log 2 ((2::real) ^ 53) = 53"
      by (subst log_nat_power) simp_all
    ultimately show ?thesis by linarith
  qed
  then have e52: "e \<le> 52" by (simp add: e_def floor_le_iff)
  define k where "k = nat (52 - e)"
  have u: "2 powr of_int (e - 52) = 1 / (2::real) ^ k"
  proof -
    have "of_int (e - 52) = - real k" using e52 by (simp add: k_def)
    then have "2 powr of_int (e - 52) = 2 powr (- real k)" by simp
    also have "\<dots> = 1 / 2 powr real k" by (simp add: powr_minus_divide)
    also have "\<dots> = 1 / (2::real) ^ k" by (simp add: powr_realpow)
    finally show ?thesis .
  qed
  have m: "max e (- 1022) = e" using e0 by simp
  have q: "x / (1 / (2::real) ^ k) = of_int (n * 2 ^ k)" by (simp add: x_def)
  have "of_int n \<noteq> (0::real)" using False by simp
  then have "round64 (of_int n)
      = of_int (rne (of_int n / 2 powr of_int (max e (- 1022) - 52)))
          * 2 powr of_int (max e (- 1022) - 52)"
    by (simp only: round64_def Let_def e_def x_def if_False)
  then have "round64 x = of_int (rne (x / (1 / 2 ^ k))) * (1 / 2 ^ k)"
    by (simp only: m u x_def)
  also have "\<dots> = of_int (n * 2 ^ k) * (1 / 2 ^ k)"
    unfolding q rne_of_int ..
  also have "\<dots> = x" by (simp add: x_def)
  finally show ?thesis by (simp add: x_def)
qed

lemma to_float_of_int:
  assumes "\<bar>n\<bar> < 2 ^ 53"
  shows "to_float (of_int n) = Fin (of_int n)"
proof -
  have "\<bar>real_of_int n\<bar> < 2 ^ 53"
    using assms by (metis of_int_abs of_int_less_iff of_int_numeral of_int_power)
  moreover have "(2::real) ^ 53 < overflow_bound"
    by (simp add: overflow_bound_def)
  ultimately have "\<not> overflow_bound \<le> of_int n" and "\<not> of_int n \<le> - overflow_bound"
    by linarith+
  then show ?thesis by (simp add: to_float_def round64_of_int [OF assms])
qed

text \<open>The sum of the clock and a whole number of seconds, both whole and small.\<close>

lemma float_add_int_exact:
  assumes "\<bar>i\<bar> < 2 ^ 53" and "\<bar>n + i\<bar> < 2 ^ 53"
  shows "float_add (of_int n) (JInt i) = Inr (Fin (of_int (n + i)))"
proof -
  have "\<bar>i\<bar> < 2 ^ 1024 - 2 ^ 970"
  proof -
    have "(2::int) ^ 53 < 2 ^ 1024 - 2 ^ 970" by simp
    with assms(1) show ?thesis by linarith
  qed
  moreover have "to_float (of_int n + round64 (of_int i)) = Fin (of_int (n + i))"
    using to_float_of_int [OF assms(2)] by (simp add: round64_of_int [OF assms(1)])
  ultimately show ?thesis by simp
qed

section \<open>The access token: cache and refresh\<close>

lemma get_access_token_cached:
  "truthy (access_token st) \<Longrightarrow> float_less (clock_check e) (expires_at st) \<Longrightarrow>
     get_access_token cfg e st = (Inr (access_token st), st, [])"
  by (simp add: get_access_token_def)

lemma get_access_token_sent:
  "\<not> (truthy (access_token st) \<and> float_less (clock_check e) (expires_at st)) \<Longrightarrow>
     snd (snd (get_access_token cfg e st)) = [token_request cfg]"
  by (auto simp: get_access_token_def Let_def split: reply.splits sum.splits)

lemma get_access_token_refreshed:
  "\<not> (truthy (access_token st) \<and> float_less (clock_check e) (expires_at st)) \<Longrightarrow>
   token_reply e = Reply resp \<Longrightarrow> is_success resp \<Longrightarrow>
   json_result resp = Some (JObj kvs) \<Longrightarrow> map_of kvs ''access_token'' = Some tok \<Longrightarrow>
   map_of kvs ''expires_in'' = Some secs \<Longrightarrow> float_add (clock_store e) secs = Inr t \<Longrightarrow>
   get_access_token cfg e st
     = (Inr tok, \<lparr>access_token = tok, expires_at = t\<rparr>, [token_request cfg])"
  by (simp add: get_access_token_def raise_for_status_def resp_json_def Let_def)

text \<open>When the sum \<open>time.time() + data["expires_in"]\<close> raises, the token has been
  assigned and the expiry has not; an integer that rounds out of the float range makes it
  raise.\<close>

lemma get_access_token_expiry_raises:
  "\<not> (truthy (access_token st) \<and> float_less (clock_check e) (expires_at st)) \<Longrightarrow>
   token_reply e = Reply resp \<Longrightarrow> is_success resp \<Longrightarrow>
   json_result resp = Some (JObj kvs) \<Longrightarrow> map_of kvs ''access_token'' = Some tok \<Longrightarrow>
   map_of kvs ''expires_in'' = Some secs \<Longrightarrow> float_add (clock_store e) secs = Inl err \<Longrightarrow>
   get_access_token cfg e st = (Inl err, st\<lparr>access_token := tok\<rparr>, [token_request cfg])"
  by (simp add: get_access_token_def raise_for_status_def resp_json_def Let_def)

lemma float_add_overflow: "float_add t (JInt (10 ^ 309)) = Inl OverflowError"
  by simp

text \<open>The first call of a process finds no token and asks the endpoint; no call asks
  it twice.\<close>

lemma get_access_token_first_call:
  "snd (snd (get_access_token cfg e initial_store)) = [token_request cfg]"
  by (rule get_access_token_sent) (simp add: initial_store_def)

lemma get_access_token_sent_cases:
  "snd (snd (get_access_token cfg e st)) = [] \<or>
   snd (snd (get_access_token cfg e st)) = [token_request cfg]"
proof (cases "truthy (access_token st) \<and> float_less (clock_check e) (expires_at st)")
  case True
  then show ?thesis by (simp add: get_access_token_cached)
next
  case False
  then show ?thesis by (simp add: get_access_token_sent)
qed

text \<open>
  C1, as the code has it. The check is \<open>time.time() < expires_at\<close>, against the literal
  expiry: there is no safety margin. If the stored token is truthy and the clock is before
  \<open>expires_at\<close>, the stored token is returned, the globals stay as they are and no request
  is sent. Otherwise exactly one request goes to the token endpoint; when it is answered
  with a 2xx status and a JSON object that holds \<open>access_token\<close> and an \<open>expires_in\<close>
  that adds to the clock (a float, a boolean, or an integer inside the range of the
  floats), the new token and the float sum of the clock and \<open>expires_in\<close> are stored and
  the new token is returned.
\<close>

theorem get_access_token_cache_or_refresh:
  "(truthy (access_token st) \<and> float_less (clock_check e) (expires_at st) \<longrightarrow>
      get_access_token cfg e st = (Inr (access_token st), st, []))
   \<and> (\<not> (truthy (access_token st) \<and> float_less (clock_check e) (expires_at st)) \<longrightarrow>
        snd (snd (get_access_token cfg e st)) = [token_request cfg]
        \<and> (token_reply e = Reply resp \<and> is_success resp
             \<and> json_result resp = Some (JObj kvs)
             \<and> map_of kvs ''access_token'' = Some tok
             \<and> map_of kvs ''expires_in'' = Some secs
             \<and> float_add (clock_store e) secs = Inr t \<longrightarrow>
             get_access_token cfg e st
               = (Inr tok, \<lparr>access_token = tok, expires_at = t\<rparr>, [token_request cfg])))"
  using get_access_token_cached get_access_token_sent get_access_token_refreshed by blast

text \<open>Two runs: a token valid until 100 asked for at 50, and the same token asked for at
  100, when the endpoint answers with a token good for 3600 seconds and the clock reads 101
  as the expiry is computed.\<close>

theorem get_access_token_cache_or_refresh_witness:
  "get_access_token sample_config
     \<lparr>clock_check = 50, token_reply = TransportError, clock_store = 50,
      api_reply = TransportError\<rparr>
     \<lparr>access_token = JStr ''old'', expires_at = Fin 100\<rparr>
   = (Inr (JStr ''old''), \<lparr>access_token = JStr ''old'', expires_at = Fin 100\<rparr>, [])
   \<and> get_access_token sample_config
     \<lparr>clock_check = 100,
      token_reply = Reply \<lparr>status_code = 200,
        content = ''{\"access_token\":\"new\",\"expires_in\":3600}'',
        json_result = Some (JObj [(''access_token'', JStr ''new''), (''expires_in'', JInt 3600)])\<rparr>,
      clock_store = 101, api_reply = TransportError\<rparr>
     \<lparr>access_token = JStr ''old'', expires_at = Fin 100\<rparr>
   = (Inr (JStr ''new''), \<lparr>access_token = JStr ''new'', expires_at = Fin 3701\<rparr>,
      [token_request sample_config])"
  using
    get_access_token_cache_or_refresh
      [where st = "\<lparr>access_token = JStr ''old'', expires_at = Fin 100\<rparr>"
         and e = "\<lparr>clock_check = 50, token_reply = TransportError, clock_store = 50,
                   api_reply = TransportError\<rparr>"
         and cfg = sample_config]
    get_access_token_cache_or_refresh
      [where st = "\<lparr>access_token = JStr ''old'', expires_at = Fin 100\<rparr>"
         and e = "\<lparr>clock_check = 100,
            token_reply = Reply \<lparr>status_code = 200,
              content = ''{\"access_token\":\"new\",\"expires_in\":3600}'',
              json_result =
                Some (JObj [(''access_token'', JStr ''new''), (''expires_in'', JInt 3600)])\<rparr>,
            clock_store = 101, api_reply = TransportError\<rparr>"
         and cfg = sample_config
         and resp = "\<lparr>status_code = 200,
              content = ''{\"access_token\":\"new\",\"expires_in\":3600}'',
              json_result =
                Some (JObj [(''access_token'', JStr ''new''), (''expires_in'', JInt 3600)])\<rparr>"
         and kvs = "[(''access_token'', JStr ''new''), (''expires_in'', JInt 3600)]"
         and tok = "JStr ''new''" and secs = "JInt 3600" and t = "Fin 3701"]
    float_add_int_exact [of 3600 101]
  by (simp add: is_success_def)

text \<open>
  C1 as stated fails for every positive margin. With a margin of 30 seconds, a token that
  expires at 100 and a clock at 90, the clock is not before the expiry minus the margin,
  so the claim has the token endpoint asked; the code returns the stored token and sends
  nothing, although the endpoint would have answered with a new token.
\<close>

theorem get_access_token_margin_counterexample:
  "\<not> ((90::real) < 100 - 30) \<and>
   get_access_token sample_config
     \<lparr>clock_check = 90,
      token_reply = Reply \<lparr>status_code = 200,
        content = ''{\"access_token\":\"new\",\"expires_in\":3600}'',
        json_result = Some (JObj [(''access_token'', JStr ''new''), (''expires_in'', JInt 3600)])\<rparr>,
      clock_store = 90, api_reply = TransportError\<rparr>
     \<lparr>access_token = JStr ''old'', expires_at = Fin 100\<rparr>
   = (Inr (JStr ''old''), \<lparr>access_token = JStr ''old'', expires_at = Fin 100\<rparr>, [])"
  by (simp add: get_access_token_def)

text \<open>
  C5. When the token endpoint answers with a status that is not 2xx, the two globals are
  what they were before the call: \<open>raise_for_status\<close> raises before either is assigned.
  If the call did ask the endpoint, its result is the \<open>HTTPStatusError\<close>.
\<close>

theorem refresh_failure_keeps_store:
  assumes "token_reply e = Reply resp" and "\<not> is_success resp"
  shows "fst (snd (get_access_token cfg e st)) = st
         \<and> (\<not> (truthy (access_token st) \<and> float_less (clock_check e) (expires_at st)) \<longrightarrow>
              get_access_token cfg e st
                = (Inl (HTTPStatusError resp), st, [token_request cfg]))"
  using assms by (simp add: get_access_token_def raise_for_status_def)

theorem refresh_failure_keeps_store_witness:
  "\<not> is_success \<lparr>status_code = 400, content = ''{\"error\":\"invalid_grant\"}'',
        json_result = Some (JObj [(''error'', JStr ''invalid_grant'')])\<rparr>
   \<and> get_access_token sample_config
     \<lparr>clock_check = 100,
      token_reply = Reply \<lparr>status_code = 400, content = ''{\"error\":\"invalid_grant\"}'',
        json_result = Some (JObj [(''error'', JStr ''invalid_grant'')])\<rparr>,
      clock_store = 101, api_reply = TransportError\<rparr>
     \<lparr>access_token = JStr ''old'', expires_at = Fin 100\<rparr>
   = (Inl (HTTPStatusError \<lparr>status_code = 400, content = ''{\"error\":\"invalid_grant\"}'',
        json_result = Some (JObj [(''error'', JStr ''invalid_grant'')])\<rparr>),
      \<lparr>access_token = JStr ''old'', expires_at = Fin 100\<rparr>,
      [token_request sample_config])"
  using refresh_failure_keeps_store
      [where st = "\<lparr>access_token = JStr ''old'', expires_at = Fin 100\<rparr>"
         and e = "\<lparr>clock_check = 100,
            token_reply = Reply \<lparr>status_code = 400, content = ''{\"error\":\"invalid_grant\"}'',
              json_result = Some (JObj [(''error'', JStr ''invalid_grant'')])\<rparr>,
            clock_store = 101, api_reply = TransportError\<rparr>"
         and cfg = sample_config
         and resp = "\<lparr>status_code = 400, content = ''{\"error\":\"invalid_grant\"}'',
              json_result = Some (JObj [(''error'', JStr ''invalid_grant'')])\<rparr>"]
  by (simp add: is_success_def)

section \<open>The access token: calls in flight at the same time\<close>

text \<open>A call alone is its first part followed at once by its second.\<close>

lemma get_access_token_two_steps:
  "get_access_token cfg e st =
     (case token_check cfg (clock_check e) st of
        Cached tok \<Rightarrow> (Inr tok, st, [])
      | Awaiting req \<Rightarrow>
         (case token_finish (token_reply e) (clock_store e) st of
            (res, st') \<Rightarrow> (res, st', [req])))"
  by (simp add: get_access_token_def token_check_def token_finish_def Let_def
      split: reply.splits sum.splits)

lemma concurrent_calls_single:
  "concurrent_calls cfg [e] st
     = (case get_access_token cfg e st of (res, st', sent) \<Rightarrow> ([res], st', sent))"
  by (simp add: concurrent_calls_def get_access_token_two_steps split: checked.splits prod.splits)

lemma token_finish_good:
  assumes "is_success resp" and "json_result resp = Some (JObj kvs)"
    and "map_of kvs ''access_token'' = Some tok" and "map_of kvs ''expires_in'' = Some secs"
    and "float_add now secs = Inr t"
  shows "token_finish (Reply resp) now st = (Inr tok, \<lparr>access_token = tok, expires_at = t\<rparr>)"
  using assms by (simp add: token_finish_def raise_for_status_def resp_json_def Let_def)

lemma check_expired:
  "\<not> (truthy (access_token st) \<and> float_less now (expires_at st)) \<Longrightarrow>
   token_check cfg now st = Awaiting (token_request cfg)"
  by (simp add: token_check_def)

lemma finish_waiting_length:
  "length (fst (finish_waiting ws st)) = length ws"
  by (induction ws st rule: finish_waiting.induct) (auto split: prod.splits)

lemma finish_waiting_step:
  "fst (finish_waiting ((Awaiting req, e) # ws) st)
     = fst (token_finish (token_reply e) (clock_store e) st)
       # fst (finish_waiting ws (snd (token_finish (token_reply e) (clock_store e) st)))"
  "snd (finish_waiting ((Awaiting req, e) # ws) st)
     = snd (finish_waiting ws (snd (token_finish (token_reply e) (clock_store e) st)))"
  by (simp_all split: prod.splits)

lemma finish_waiting_own_reply:
  assumes "i < length es"
    and "token_reply (es ! i) = Reply resp" and "is_success resp"
    and "json_result resp = Some (JObj kvs)"
    and "map_of kvs ''access_token'' = Some tok" and "map_of kvs ''expires_in'' = Some secs"
    and "float_add (clock_store (es ! i)) secs = Inr t"
  shows "fst (finish_waiting (zip (replicate (length es) (Awaiting req)) es) st) ! i = Inr tok"
  using assms
proof (induction es arbitrary: i st)
  case Nil
  then show ?case by simp
next
  case (Cons e es)
  show ?case
  proof (cases i)
    case 0
    with Cons.prems show ?thesis
      by (simp add: finish_waiting_step token_finish_good del: finish_waiting.simps)
  next
    case (Suc j)
    with Cons.prems have "fst (finish_waiting (zip (replicate (length es) (Awaiting req)) es)
        (snd (token_finish (token_reply e) (clock_store e) st))) ! j = Inr tok"
      by (intro Cons.IH) simp_all
    with Suc show ?thesis by (simp add: finish_waiting_step del: finish_waiting.simps)
  qed
qed

lemma finish_waiting_last_store:
  assumes "es \<noteq> []"
    and "token_reply (last es) = Reply resp" and "is_success resp"
    and "json_result resp = Some (JObj kvs)"
    and "map_of kvs ''access_token'' = Some tok" and "map_of kvs ''expires_in'' = Some secs"
    and "float_add (clock_store (last es)) secs = Inr t"
  shows "snd (finish_waiting (zip (replicate (length es) (Awaiting req)) es) st)
           = \<lparr>access_token = tok, expires_at = t\<rparr>"
  using assms
proof (induction es arbitrary: st)
  case Nil
  then show ?case by simp
next
  case (Cons e es)
  show ?case
  proof (cases "es = []")
    case True
    with Cons.prems show ?thesis
      by (simp add: finish_waiting_step token_finish_good del: finish_waiting.simps(3))
  next
    case False
    with Cons.prems have "snd (finish_waiting (zip (replicate (length es) (Awaiting req)) es)
        (snd (token_finish (token_reply e) (clock_store e) st)))
          = \<lparr>access_token = tok, expires_at = t\<rparr>"
      by (intro Cons.IH) simp_all
    then show ?thesis by (simp add: finish_waiting_step del: finish_waiting.simps)
  qed
qed

lemma checks_all_await:
  assumes "\<forall>e \<in> set es. \<not> (truthy (access_token st) \<and> float_less (clock_check e) (expires_at st))"
  shows "map (\<lambda>e. token_check cfg (clock_check e) st) es
           = replicate (length es) (Awaiting (token_request cfg))"
  using assms by (induction es) (simp_all add: check_expired)

lemma requests_of_replicate: "requests_of (replicate n (Awaiting req)) = replicate n req"
  by (induction n) simp_all

text \<open>
  C2, as the code has it. \<open>get_access_token\<close> holds no lock and shares no request in
  flight. When several calls all test the cache while it holds no valid token, before any
  of their replies is handled, every one of them sends its own request to the token
  endpoint: as many exchanges as calls. Each call whose own exchange succeeds returns the
  token of its own exchange, and the globals end with the token and expiry of the call
  handled last.
\<close>

theorem concurrent_calls_no_single_flight:
  assumes "\<forall>e \<in> set es. \<not> (truthy (access_token st) \<and> float_less (clock_check e) (expires_at st))"
  shows "snd (snd (concurrent_calls cfg es st)) = replicate (length es) (token_request cfg)
         \<and> length (fst (concurrent_calls cfg es st)) = length es
         \<and> (i < length es \<and> token_reply (es ! i) = Reply resp \<and> is_success resp
             \<and> json_result resp = Some (JObj kvs)
             \<and> map_of kvs ''access_token'' = Some tok
             \<and> map_of kvs ''expires_in'' = Some secs
             \<and> float_add (clock_store (es ! i)) secs = Inr t \<longrightarrow>
             fst (concurrent_calls cfg es st) ! i = Inr tok
             \<and> (i = length es - 1 \<longrightarrow>
                  fst (snd (concurrent_calls cfg es st)) = \<lparr>access_token = tok, expires_at = t\<rparr>))"
proof -
  let ?cs = "replicate (length es) (Awaiting (token_request cfg))"
  have cs: "map (\<lambda>e. token_check cfg (clock_check e) st) es = ?cs"
    using assms by (rule checks_all_await)
  have cc: "concurrent_calls cfg es st
      = (fst (finish_waiting (zip ?cs es) st), snd (finish_waiting (zip ?cs es) st),
         replicate (length es) (token_request cfg))"
    by (simp add: concurrent_calls_def cs requests_of_replicate split: prod.splits)
  have "length (fst (finish_waiting (zip ?cs es) st)) = length es"
    by (simp add: finish_waiting_length)
  moreover have "fst (finish_waiting (zip ?cs es) st) ! i = Inr tok"
    if "i < length es" "token_reply (es ! i) = Reply resp" "is_success resp"
      "json_result resp = Some (JObj kvs)" "map_of kvs ''access_token'' = Some tok"
      "map_of kvs ''expires_in'' = Some secs" "float_add (clock_store (es ! i)) secs = Inr t"
    using that by (rule finish_waiting_own_reply)
  moreover have "snd (finish_waiting (zip ?cs es) st) = \<lparr>access_token = tok, expires_at = t\<rparr>"
    if "i < length es" "i = length es - 1" "token_reply (es ! i) = Reply resp" "is_success resp"
      "json_result resp = Some (JObj kvs)" "map_of kvs ''access_token'' = Some tok"
      "map_of kvs ''expires_in'' = Some secs" "float_add (clock_store (es ! i)) secs = Inr t"
  proof -
    from that(1) have ne: "es \<noteq> []" by auto
    from that(2) have l: "es ! i = last es" by (simp add: last_conv_nth [OF ne])
    show ?thesis using ne that(3-8) unfolding l by (rule finish_waiting_last_store)
  qed
  ultimately show ?thesis unfolding cc fst_conv snd_conv by blast
qed

text \<open>Three calls at 1000 on a token that expired at 900; the endpoint answers them with
  the tokens A, B and C.\<close>

theorem concurrent_calls_no_single_flight_witness:
  "snd (snd (concurrent_calls sample_config
     [\<lparr>clock_check = 1000,
       token_reply = Reply \<lparr>status_code = 200,
         content = ''{\"access_token\":\"A\",\"expires_in\":3600}'',
         json_result = Some (JObj [(''access_token'', JStr ''A''), (''expires_in'', JInt 3600)])\<rparr>,
       clock_store = 1001, api_reply = TransportError\<rparr>,
      \<lparr>clock_check = 1000,
       token_reply = Reply \<lparr>status_code = 200,
         content = ''{\"access_token\":\"B\",\"expires_in\":3600}'',
         json_result = Some (JObj [(''access_token'', JStr ''B''), (''expires_in'', JInt 3600)])\<rparr>,
       clock_store = 1002, api_reply = TransportError\<rparr>,
      \<lparr>clock_check = 1000,
       token_reply = Reply \<lparr>status_code = 200,
         content = ''{\"access_token\":\"C\",\"expires_in\":3600}'',
         json_result = Some (JObj [(''access_token'', JStr ''C''), (''expires_in'', JInt 3600)])\<rparr>,
       clock_store = 1003, api_reply = TransportError\<rparr>]
     \<lparr>access_token = JStr ''old'', expires_at = Fin 900\<rparr>))
   = [token_request sample_config, token_request sample_config, token_request sample_config]
   \<and> fst (concurrent_calls sample_config
     [\<lparr>clock_check = 1000,
       token_reply = Reply \<lparr>status_code = 200,
         content = ''{\"access_token\":\"A\",\"expires_in\":3600}'',
         json_result = Some (JObj [(''access_token'', JStr ''A''), (''expires_in'', JInt 3600)])\<rparr>,
       clock_store = 1001, api_reply = TransportError\<rparr>,
      \<lparr>clock_check = 1000,
       token_reply = Reply \<lparr>status_code = 200,
         content = ''{\"access_token\":\"B\",\"expires_in\":3600}'',
         json_result = Some (JObj [(''access_token'', JStr ''B''), (''expires_in'', JInt 3600)])\<rparr>,
       clock_store = 1002, api_reply = TransportError\<rparr>,
      \<lparr>clock_check = 1000,
       token_reply = Reply \<lparr>status_code = 200,
         content = ''{\"access_token\":\"C\",\"expires_in\":3600}'',
         json_result = Some (JObj [(''access_token'', JStr ''C''), (''expires_in'', JInt 3600)])\<rparr>,
       clock_store = 1003, api_reply = TransportError\<rparr>]
     \<lparr>access_token = JStr ''old'', expires_at = Fin 900\<rparr>) ! 2
   = Inr (JStr ''C'')
   \<and> fst (snd (concurrent_calls sample_config
     [\<lparr>clock_check = 1000,
       token_reply = Reply \<lparr>status_code = 200,
         content = ''{\"access_token\":\"A\",\"expires_in\":3600}'',
         json_result = Some (JObj [(''access_token'', JStr ''A''), (''expires_in'', JInt 3600)])\<rparr>,
       clock_store = 1001, api_reply = TransportError\<rparr>,
      \<lparr>clock_check = 1000,
       token_reply = Reply \<lparr>status_code = 200,
         content = ''{\"access_token\":\"B\",\"expires_in\":3600}'',
         json_result = Some (JObj [(''access_token'', JStr ''B''), (''expires_in'', JInt 3600)])\<rparr>,
       clock_store = 1002, api_reply = TransportError\<rparr>,
      \<lparr>clock_check = 1000,
       token_reply = Reply \<lparr>status_code = 200,
         content = ''{\"access_token\":\"C\",\"expires_in\":3600}'',
         json_result = Some (JObj [(''access_token'', JStr ''C''), (''expires_in'', JInt 3600)])\<rparr>,
       clock_store = 1003, api_reply = TransportError\<rparr>]
     \<lparr>access_token = JStr ''old'', expires_at = Fin 900\<rparr>))
   = \<lparr>access_token = JStr ''C'', expires_at = Fin 4603\<rparr>"
  using concurrent_calls_no_single_flight
    [where cfg = sample_config
       and st = "\<lparr>access_token = JStr ''old'', expires_at = Fin 900\<rparr>"
       and es = "[\<lparr>clock_check = 1000,
       token_reply = Reply \<lparr>status_code = 200,
         content = ''{\"access_token\":\"A\",\"expires_in\":3600}'',
         json_result = Some (JObj [(''access_token'', JStr ''A''), (''expires_in'', JInt 3600)])\<rparr>,
       clock_store = 1001, api_reply = TransportError\<rparr>,
      \<lparr>clock_check = 1000,
       token_reply = Reply \<lparr>status_code = 200,
         content = ''{\"access_token\":\"B\",\"expires_in\":3600}'',
         json_result = Some (JObj [(''access_token'', JStr ''B''), (''expires_in'', JInt 3600)])\<rparr>,
       clock_store = 1002, api_reply = TransportError\<rparr>,
      \<lparr>clock_check = 1000,
       token_reply = Reply \<lparr>status_code = 200,
         content = ''{\"access_token\":\"C\",\"expires_in\":3600}'',
         json_result = Some (JObj [(''access_token'', JStr ''C''), (''expires_in'', JInt 3600)])\<rparr>,
       clock_store = 1003, api_reply = TransportError\<rparr>]"
       and i = 2
       and resp = "\<lparr>status_code = 200,
         content = ''{\"access_token\":\"C\",\"expires_in\":3600}'',
         json_result = Some (JObj [(''access_token'', JStr ''C''), (''expires_in'', JInt 3600)])\<rparr>"
       and kvs = "[(''access_token'', JStr ''C''), (''expires_in'', JInt 3600)]"
       and tok = "JStr ''C''" and secs = "JInt 3600" and t = "Fin 4603"]
    float_add_int_exact [of 3600 1003]
  by (simp add: is_success_def)

text \<open>
  C2 as stated fails. Two calls find no token (the process has just started) and both test
  the cache before either reply is handled: two requests go to the token endpoint, not one,
  and the two callers return different tokens, each the one of its own exchange.
\<close>

theorem concurrent_calls_two_exchanges_counterexample:
  "concurrent_calls sample_config
     [\<lparr>clock_check = 1000,
       token_reply = Reply \<lparr>status_code = 200,
         content = ''{\"access_token\":\"A\",\"expires_in\":3600}'',
         json_result = Some (JObj [(''access_token'', JStr ''A''), (''expires_in'', JInt 3600)])\<rparr>,
       clock_store = 1001, api_reply = TransportError\<rparr>,
      \<lparr>clock_check = 1000,
       token_reply = Reply \<lparr>status_code = 200,
         content = ''{\"access_token\":\"B\",\"expires_in\":3600}'',
         json_result = Some (JObj [(''access_token'', JStr ''B''), (''expires_in'', JInt 3600)])\<rparr>,
       clock_store = 1002, api_reply = TransportError\<rparr>]
     initial_store
   = ([Inr (JStr ''A''), Inr (JStr ''B'')],
      \<lparr>access_token = JStr ''B'', expires_at = Fin 4602\<rparr>,
      [token_request sample_config, token_request sample_config])"
  using float_add_int_exact [of 3600 1001] float_add_int_exact [of 3600 1002]
  by (simp add: concurrent_calls_def token_check_def token_finish_def initial_store_def
      raise_for_status_def is_success_def resp_json_def Let_def)

section \<open>The request wrappers: success and failure\<close>

lemma spotify_get_with_token:
  "get_access_token cfg e st = (Inr token, st', sent) \<Longrightarrow> api_reply e = Reply resp \<Longrightarrow>
   spotify_get cfg e st path params
     = (checked_json resp, st', sent @ [api_request GET path token (Params params)])"
  by (simp add: spotify_get_def)

lemma spotify_post_with_token:
  "get_access_token cfg e st = (Inr token, st', sent) \<Longrightarrow> api_reply e = Reply resp \<Longrightarrow>
   spotify_post cfg e st path params
     = (checked_json resp, st', sent @ [api_request POST path token (Json params)])"
  by (simp add: spotify_post_def)

lemma spotify_put_with_token:
  "get_access_token cfg e st = (Inr token, st', sent) \<Longrightarrow> api_reply e = Reply resp \<Longrightarrow>
   spotify_put cfg e st path params
     = (if status_code resp = 204 \<or> status_code resp = 200 \<or> content resp = []
        then Inr status_ok else checked_json resp,
        st', sent @ [api_request PUT path token (Json params)])"
  by (simp add: spotify_put_def)

lemma checked_json_failure: "\<not> is_success r \<Longrightarrow> checked_json r = Inl (HTTPStatusError r)"
  by (simp add: checked_json_def raise_for_status_def)

lemma checked_json_success:
  "is_success r \<Longrightarrow>
   checked_json r = (case json_result r of None \<Rightarrow> Inl JSONDecodeError | Some j \<Rightarrow> Inr j)"
  by (simp add: checked_json_def raise_for_status_def resp_json_def)

text \<open>GET and POST raise on every status that is not 2xx, and so does PUT when the
  response has a body.\<close>

lemma get_post_raise_on_failure:
  assumes "get_access_token cfg e st = (Inr token, st', sent)" and "api_reply e = Reply resp"
    and "\<not> is_success resp"
  shows "fst (spotify_get cfg e st path params) = Inl (HTTPStatusError resp)"
    and "fst (spotify_post cfg e st path params) = Inl (HTTPStatusError resp)"
  using assms
  by (simp_all add: spotify_get_with_token spotify_post_with_token checked_json_failure)

lemma put_raises_on_failure_with_body:
  assumes "get_access_token cfg e st = (Inr token, st', sent)" and "api_reply e = Reply resp"
    and "\<not> is_success resp" and "content resp \<noteq> []"
  shows "fst (spotify_put cfg e st path params) = Inl (HTTPStatusError resp)"
  using assms by (auto simp: spotify_put_with_token checked_json_failure is_success_def)

text \<open>
  C3 does not hold of \<open>spotify_put\<close>. The test \<open>not resp.content\<close> stands before
  \<open>raise_for_status\<close>, so a 404 without a body is answered with \<open>{"status": "ok"}\<close>;
  \<open>spotify_get\<close> raises the \<open>HTTPStatusError\<close> on the same response.
\<close>

theorem spotify_put_failure_with_empty_body:
  "\<not> is_success \<lparr>status_code = 404, content = [], json_result = None\<rparr>
   \<and> spotify_put sample_config
        \<lparr>clock_check = 50, token_reply = TransportError, clock_store = 50,
         api_reply = Reply \<lparr>status_code = 404, content = [], json_result = None\<rparr>\<rparr>
        \<lparr>access_token = JStr ''tok'', expires_at = Fin 100\<rparr> ''/me/player/pause'' JNull
      = (Inr (JObj [(''status'', JStr ''ok'')]),
         \<lparr>access_token = JStr ''tok'', expires_at = Fin 100\<rparr>,
         [\<lparr>verb = PUT, url = ''https://api.spotify.com/v1/me/player/pause'',
           auth = Some (JStr ''tok''), payload = Json JNull\<rparr>])
   \<and> fst (spotify_get sample_config
        \<lparr>clock_check = 50, token_reply = TransportError, clock_store = 50,
         api_reply = Reply \<lparr>status_code = 404, content = [], json_result = None\<rparr>\<rparr>
        \<lparr>access_token = JStr ''tok'', expires_at = Fin 100\<rparr> ''/me/player/pause'' JNull)
      = Inl (HTTPStatusError \<lparr>status_code = 404, content = [], json_result = None\<rparr>)"
  by (simp add: spotify_put_def spotify_get_def get_access_token_def is_success_def status_ok_def
      api_request_def API_URL_def checked_json_def raise_for_status_def)

text \<open>
  C4. Once a token is at hand and the Web API has answered: a PUT whose response has
  status 204 or 200, or an empty body with a 2xx status, returns \<open>{"status": "ok"}\<close>.
  GET and POST have no such rule: on a 2xx response their result is what \<open>json()\<close> gives,
  a \<open>JSONDecodeError\<close> when the body does not decode, whether the body is empty or not.
\<close>

theorem put_empty_body_rule:
  assumes "get_access_token cfg e st = (Inr token, st', sent)" and "api_reply e = Reply resp"
  shows "(status_code resp = 204 \<or> status_code resp = 200
           \<or> (content resp = [] \<and> is_success resp) \<longrightarrow>
            fst (spotify_put cfg e st path params) = Inr (JObj [(''status'', JStr ''ok'')]))
         \<and> (is_success resp \<longrightarrow>
              fst (spotify_get cfg e st path params)
                = (case json_result resp of None \<Rightarrow> Inl JSONDecodeError | Some j \<Rightarrow> Inr j)
              \<and> fst (spotify_post cfg e st path params)
                = (case json_result resp of None \<Rightarrow> Inl JSONDecodeError | Some j \<Rightarrow> Inr j))"
  using assms
  by (auto simp: spotify_put_with_token spotify_get_with_token spotify_post_with_token
      checked_json_success status_ok_def)

text \<open>A 204 without a body: PUT returns the marker, GET and POST raise.\<close>

theorem put_empty_body_rule_witness:
  "get_access_token sample_config
     \<lparr>clock_check = 50, token_reply = TransportError, clock_store = 50,
      api_reply = Reply \<lparr>status_code = 204, content = [], json_result = None\<rparr>\<rparr>
     \<lparr>access_token = JStr ''tok'', expires_at = Fin 100\<rparr>
     = (Inr (JStr ''tok''), \<lparr>access_token = JStr ''tok'', expires_at = Fin 100\<rparr>, [])
   \<and> is_success \<lparr>status_code = 204, content = [], json_result = None\<rparr>
   \<and> fst (spotify_put sample_config
     \<lparr>clock_check = 50, token_reply = TransportError, clock_store = 50,
      api_reply = Reply \<lparr>status_code = 204, content = [], json_result = None\<rparr>\<rparr>
     \<lparr>access_token = JStr ''tok'', expires_at = Fin 100\<rparr> ''/me/player/pause'' JNull)
     = Inr (JObj [(''status'', JStr ''ok'')])
   \<and> fst (spotify_get sample_config
     \<lparr>clock_check = 50, token_reply = TransportError, clock_store = 50,
      api_reply = Reply \<lparr>status_code = 204, content = [], json_result = None\<rparr>\<rparr>
     \<lparr>access_token = JStr ''tok'', expires_at = Fin 100\<rparr> ''/me/player/pause'' JNull)
     = Inl JSONDecodeError
   \<and> fst (spotify_post sample_config
     \<lparr>clock_check = 50, token_reply = TransportError, clock_store = 50,
      api_reply = Reply \<lparr>status_code = 204, content = [], json_result = None\<rparr>\<rparr>
     \<lparr>access_token = JStr ''tok'', expires_at = Fin 100\<rparr> ''/me/player/pause'' JNull)
     = Inl JSONDecodeError"
proof -
  let ?e = "\<lparr>clock_check = 50, token_reply = TransportError, clock_store = 50,
      api_reply = Reply \<lparr>status_code = 204, content = [], json_result = None\<rparr>\<rparr>"
  let ?st = "\<lparr>access_token = JStr ''tok'', expires_at = Fin 100\<rparr>"
  have tok: "get_access_token sample_config ?e ?st = (Inr (JStr ''tok''), ?st, [])"
    by (simp add: get_access_token_def)
  have rep: "api_reply ?e = Reply \<lparr>status_code = 204, content = [], json_result = None\<rparr>"
    by simp
  have ok: "is_success \<lparr>status_code = 204, content = [], json_result = None\<rparr>"
    by (simp add: is_success_def)
  show ?thesis
    using put_empty_body_rule [OF tok rep, of "''/me/player/pause''" JNull] tok ok by simp
qed

section \<open>Splitting and stripping\<close>

text \<open>What \<open>split\<close> and \<open>strip\<close> compute: the pieces hold no separator, there is one more
  piece than there are separators, and putting the separator back between the pieces gives
  the string; \<open>strip\<close> removes white space at both ends and nothing else.\<close>

lemma split_nonempty: "split c s \<noteq> []"
  by (induction s) (auto split: list.splits)

lemma split_pieces_free: "w \<in> set (split c s) \<Longrightarrow> c \<notin> set w"
proof (induction s arbitrary: w)
  case Nil
  then show ?case by simp
next
  case (Cons x xs)
  then show ?case
    by (cases "split c xs") (auto split: if_splits)
qed

lemma split_length: "length (split c s) = Suc (count_list s c)"
  by (induction s) (auto split: list.splits simp: split_nonempty)

lemma split_join:
  "concat (map (\<lambda>w. w @ [c]) (butlast (split c s))) @ last (split c s) = s"
proof (induction s)
  case Nil
  then show ?case by simp
next
  case (Cons x xs)
  obtain w ws where ws: "split c xs = w # ws"
    using split_nonempty [of c xs] by (cases "split c xs") auto
  with Cons show ?case by (cases ws) auto
qed

lemma strip_decompose:
  "\<exists>a b. s = a @ strip s @ b \<and> (\<forall>x\<in>set a. isspace x) \<and> (\<forall>x\<in>set b. isspace x)"
proof -
  let ?a = "takeWhile isspace s"
  let ?m = "dropWhile isspace s"
  let ?b = "rev (takeWhile isspace (rev ?m))"
  have "rev ?m = takeWhile isspace (rev ?m) @ dropWhile isspace (rev ?m)"
    by simp
  then have "?m = rev (dropWhile isspace (rev ?m)) @ ?b"
    by (metis rev_append rev_rev_ident)
  then have "s = ?a @ strip s @ ?b"
    by (metis strip_def takeWhile_dropWhile_id)
  moreover have "\<forall>x\<in>set ?a. isspace x"
    by (auto dest: set_takeWhileD)
  moreover have "\<forall>x\<in>set ?b. isspace x"
    by (auto dest: set_takeWhileD)
  ultimately show ?thesis by blast
qed

lemma strip_ends:
  assumes "strip s \<noteq> []"
  shows "\<not> isspace (hd (strip s))" and "\<not> isspace (last (strip s))"
proof -
  let ?m = "dropWhile isspace s"
  let ?r = "dropWhile isspace (rev ?m)"
  have r: "?r \<noteq> []" using assms by (simp add: strip_def)
  then have "\<not> isspace (hd ?r)" by (simp add: hd_dropWhile)
  then show "\<not> isspace (last (strip s))"
    using r by (simp add: strip_def last_rev)
  have m: "?m \<noteq> []"
  proof
    assume "?m = []"
    then have "?r = []" by (simp only: rev.simps dropWhile.simps)
    with r show False by simp
  qed
  then have hm: "\<not> isspace (hd ?m)" by (simp add: hd_dropWhile)
  have "rev ?m = takeWhile isspace (rev ?m) @ ?r" by simp
  then have "?m = rev ?r @ rev (takeWhile isspace (rev ?m))"
    by (metis rev_append rev_rev_ident)
  then have "hd ?m = hd (rev ?r)"
    using r by (metis hd_append2 rev_is_Nil_conv)
  then show "\<not> isspace (hd (strip s))"
    using hm by (simp add: strip_def)
qed

lemma strip_no_comma: "c \<notin> set s \<Longrightarrow> c \<notin> set (strip s)"
  by (auto simp: strip_def dest!: set_dropWhileD)

lemma uri_list_pieces:
  assumes "u \<in> set (uri_list s)"
  shows "CHR '','' \<notin> set u" and "u \<noteq> [] \<Longrightarrow> \<not> isspace (hd u) \<and> \<not> isspace (last u)"
proof -
  from assms obtain w where w: "w \<in> set (split CHR '','' s)" and u: "u = strip w"
    by (auto simp: uri_list_def)
  from w have "CHR '','' \<notin> set w" by (rule split_pieces_free)
  then show "CHR '','' \<notin> set u" unfolding u by (rule strip_no_comma)
  show "u \<noteq> [] \<Longrightarrow> \<not> isspace (hd u) \<and> \<not> isspace (last u)"
    unfolding u using strip_ends by blast
qed

section \<open>add_to_playlist and start_playback: the list of URIs\<close>

lemma spotify_post_sent:
  "get_access_token cfg e st = (Inr token, st', sent) \<Longrightarrow>
   snd (snd (spotify_post cfg e st path params))
     = sent @ [api_request POST path token (Json params)]"
  by (simp add: spotify_post_def split: reply.splits)

lemma spotify_put_sent:
  "get_access_token cfg e st = (Inr token, st', sent) \<Longrightarrow>
   snd (snd (spotify_put cfg e st path params))
     = sent @ [api_request PUT path token (Json params)]"
  by (simp add: spotify_put_def split: reply.splits)

lemma spotify_post_requests:
  assumes "r \<in> set (snd (snd (spotify_post cfg e st path params)))"
  shows "r = token_request cfg
         \<or> (verb r = POST \<and> url r = API_URL @ path \<and> payload r = Json params)"
proof (cases "get_access_token cfg e st")
  case (fields res st' sent)
  have sent: "sent = [] \<or> sent = [token_request cfg]"
    using get_access_token_sent_cases [of cfg e st] fields by simp
  show ?thesis
  proof (cases res)
    case (Inl err)
    with fields assms sent show ?thesis by (auto simp: spotify_post_def)
  next
    case (Inr token)
    with fields have "snd (snd (spotify_post cfg e st path params))
        = sent @ [api_request POST path token (Json params)]"
      by (simp add: spotify_post_sent)
    with assms sent show ?thesis by (auto simp: api_request_def)
  qed
qed

lemma spotify_put_requests:
  assumes "r \<in> set (snd (snd (spotify_put cfg e st path params)))"
  shows "r = token_request cfg
         \<or> (verb r = PUT \<and> url r = API_URL @ path \<and> payload r = Json params)"
proof (cases "get_access_token cfg e st")
  case (fields res st' sent)
  have sent: "sent = [] \<or> sent = [token_request cfg]"
    using get_access_token_sent_cases [of cfg e st] fields by simp
  show ?thesis
  proof (cases res)
    case (Inl err)
    with fields assms sent show ?thesis by (auto simp: spotify_put_def)
  next
    case (Inr token)
    with fields have "snd (snd (spotify_put cfg e st path params))
        = sent @ [api_request PUT path token (Json params)]"
      by (simp add: spotify_put_sent)
    with assms sent show ?thesis by (auto simp: api_request_def)
  qed
qed

text \<open>
  C8. Every request \<open>add_to_playlist\<close> sends, other than the one to the token endpoint, is
  a POST to the playlist's tracks whose JSON body is \<open>{"uris": xs}\<close>, where \<open>xs\<close> is
  \<open>track_uri\<close> split at its commas with every piece stripped; once a token is at hand,
  exactly one such request is sent. The list has one piece more than there are commas, no
  piece holds a comma, and none starts or ends with white space. For \<open>"uri1, uri2"\<close> the
  list is \<open>["uri1", "uri2"]\<close>.
\<close>

theorem add_to_playlist_splits_uris:
  "(\<forall>r \<in> set (snd (snd (add_to_playlist cfg e st playlist_id track_uri))).
       r = token_request cfg
       \<or> (verb r = POST
          \<and> url r = ''https://api.spotify.com/v1/playlists/'' @ playlist_id @ ''/tracks''
          \<and> payload r = Json (JObj [(''uris'',
                JArr (map JStr (map strip (split CHR '','' track_uri))))])))
   \<and> (get_access_token cfg e st = (Inr token, st', sent) \<longrightarrow>
        snd (snd (add_to_playlist cfg e st playlist_id track_uri))
          = sent @ [\<lparr>verb = POST,
                     url = ''https://api.spotify.com/v1/playlists/'' @ playlist_id @ ''/tracks'',
                     auth = Some token,
                     payload = Json (JObj [(''uris'',
                       JArr (map JStr (map strip (split CHR '','' track_uri))))])\<rparr>])
   \<and> length (map strip (split CHR '','' track_uri)) = Suc (count_list track_uri CHR '','')
   \<and> (\<forall>u \<in> set (map strip (split CHR '','' track_uri)).
         CHR '','' \<notin> set u \<and> (u \<noteq> [] \<longrightarrow> \<not> isspace (hd u) \<and> \<not> isspace (last u)))
   \<and> map strip (split CHR '','' ''uri1, uri2'') = [''uri1'', ''uri2'']"
proof -
  have "\<forall>r \<in> set (snd (snd (add_to_playlist cfg e st playlist_id track_uri))).
       r = token_request cfg
       \<or> (verb r = POST
          \<and> url r = ''https://api.spotify.com/v1/playlists/'' @ playlist_id @ ''/tracks''
          \<and> payload r = Json (JObj [(''uris'',
                JArr (map JStr (map strip (split CHR '','' track_uri))))]))"
    using spotify_post_requests [of _ cfg e st "''/playlists/'' @ playlist_id @ ''/tracks''"]
    by (auto simp: add_to_playlist_def uri_list_def API_URL_def)
  moreover have "get_access_token cfg e st = (Inr token, st', sent) \<longrightarrow>
        snd (snd (add_to_playlist cfg e st playlist_id track_uri))
          = sent @ [\<lparr>verb = POST,
                     url = ''https://api.spotify.com/v1/playlists/'' @ playlist_id @ ''/tracks'',
                     auth = Some token,
                     payload = Json (JObj [(''uris'',
                       JArr (map JStr (map strip (split CHR '','' track_uri))))])\<rparr>]"
    by (simp add: add_to_playlist_def spotify_post_sent api_request_def API_URL_def uri_list_def)
  moreover have "length (map strip (split CHR '','' track_uri))
                   = Suc (count_list track_uri CHR '','')"
    by (simp add: split_length)
  moreover have "\<forall>u \<in> set (map strip (split CHR '','' track_uri)).
               CHR '','' \<notin> set u \<and> (u \<noteq> [] \<longrightarrow> \<not> isspace (hd u) \<and> \<not> isspace (last u))"
    using uri_list_pieces [of _ track_uri] unfolding uri_list_def by blast
  moreover have "map strip (split CHR '','' ''uri1, uri2'') = [''uri1'', ''uri2'']"
    by (simp add: strip_def isspace_def)
  ultimately show ?thesis by blast
qed

theorem add_to_playlist_splits_uris_witness:
  "get_access_token sample_config
     \<lparr>clock_check = 50, token_reply = TransportError, clock_store = 50,
      api_reply = Reply \<lparr>status_code = 201, content = ''{\"snapshot_id\":\"s1\"}'',
        json_result = Some (JObj [(''snapshot_id'', JStr ''s1'')])\<rparr>\<rparr>
     \<lparr>access_token = JStr ''tok'', expires_at = Fin 100\<rparr>
     = (Inr (JStr ''tok''), \<lparr>access_token = JStr ''tok'', expires_at = Fin 100\<rparr>, [])
   \<and> snd (snd (add_to_playlist sample_config
     \<lparr>clock_check = 50, token_reply = TransportError, clock_store = 50,
      api_reply = Reply \<lparr>status_code = 201, content = ''{\"snapshot_id\":\"s1\"}'',
        json_result = Some (JObj [(''snapshot_id'', JStr ''s1'')])\<rparr>\<rparr>
     \<lparr>access_token = JStr ''tok'', expires_at = Fin 100\<rparr> ''p1'' ''uri1, uri2''))
     = [\<lparr>verb = POST, url = ''https://api.spotify.com/v1/playlists/p1/tracks'',
         auth = Some (JStr ''tok''),
         payload = Json (JObj [(''uris'', JArr [JStr ''uri1'', JStr ''uri2''])])\<rparr>]"
proof -
  let ?e = "\<lparr>clock_check = 50, token_reply = TransportError, clock_store = 50,
      api_reply = Reply \<lparr>status_code = 201, content = ''{\"snapshot_id\":\"s1\"}'',
        json_result = Some (JObj [(''snapshot_id'', JStr ''s1'')])\<rparr>\<rparr>"
  let ?st = "\<lparr>access_token = JStr ''tok'', expires_at = Fin 100\<rparr>"
  have tok: "get_access_token sample_config ?e ?st = (Inr (JStr ''tok''), ?st, [])"
    by (simp add: get_access_token_def)
  show ?thesis
    using add_to_playlist_splits_uris
      [where cfg = sample_config and e = ?e and st = ?st and token = "JStr ''tok''"
         and st' = ?st and sent = "[]" and playlist_id = "''p1''" and track_uri = "''uri1, uri2''"]
      tok
    by simp
qed

text \<open>
  C10. Every request \<open>start_playback\<close> sends, other than the one to the token endpoint, is
  a PUT to \<open>/me/player/play\<close> whose JSON body holds under \<open>uris\<close>: \<open>None\<close> when
  \<open>track_uris\<close> is \<open>None\<close> or the empty string, and otherwise the list of the pieces of
  \<open>track_uris\<close> between its commas, each stripped. Once a token is at hand, exactly one
  such request is sent.
\<close>

theorem start_playback_uris:
  "(\<forall>r \<in> set (snd (snd (start_playback cfg e st context_uri track_uris position_ms))).
       r = token_request cfg
       \<or> (verb r = PUT \<and> url r = ''https://api.spotify.com/v1/me/player/play''
          \<and> (\<exists>body. payload r = Json (JObj body)
                \<and> map_of body ''uris''
                    = Some (case track_uris of
                              None \<Rightarrow> JNull
                            | Some s \<Rightarrow>
                                if s = [] then JNull
                                else JArr (map JStr (map strip (split CHR '','' s)))))))
   \<and> (get_access_token cfg e st = (Inr token, st', sent) \<longrightarrow>
        snd (snd (start_playback cfg e st context_uri track_uris position_ms))
          = sent @ [\<lparr>verb = PUT, url = ''https://api.spotify.com/v1/me/player/play'',
                     auth = Some token,
                     payload = Json (JObj
                       [(''context_uri'',
                           (case context_uri of None \<Rightarrow> JNull | Some c \<Rightarrow> JStr c)),
                        (''uris'',
                           (case track_uris of
                              None \<Rightarrow> JNull
                            | Some s \<Rightarrow>
                                if s = [] then JNull
                                else JArr (map JStr (map strip (split CHR '','' s))))),
                        (''position_ms'',
                           (case position_ms of None \<Rightarrow> JNull | Some ms \<Rightarrow> JInt ms))])\<rparr>])"
proof (intro conjI ballI impI)
  fix r
  assume "r \<in> set (snd (snd (start_playback cfg e st context_uri track_uris position_ms)))"
  then have "r = token_request cfg
     \<or> (verb r = PUT \<and> url r = API_URL @ ''/me/player/play''
        \<and> payload r = Json (JObj [(''context_uri'', env_str context_uri),
              (''uris'', playback_uris track_uris),
              (''position_ms'', (case position_ms of None \<Rightarrow> JNull | Some ms \<Rightarrow> JInt ms))]))"
    unfolding start_playback_def by (rule spotify_put_requests)
  then show "r = token_request cfg
       \<or> (verb r = PUT \<and> url r = ''https://api.spotify.com/v1/me/player/play''
          \<and> (\<exists>body. payload r = Json (JObj body)
                \<and> map_of body ''uris''
                    = Some (case track_uris of
                              None \<Rightarrow> JNull
                            | Some s \<Rightarrow>
                                if s = [] then JNull
                                else JArr (map JStr (map strip (split CHR '','' s))))))"
    by (auto simp: API_URL_def playback_uris_def uri_list_def split: option.splits)
next
  assume "get_access_token cfg e st = (Inr token, st', sent)"
  then show "snd (snd (start_playback cfg e st context_uri track_uris position_ms))
          = sent @ [\<lparr>verb = PUT, url = ''https://api.spotify.com/v1/me/player/play'',
                     auth = Some token,
                     payload = Json (JObj
                       [(''context_uri'',
                           (case context_uri of None \<Rightarrow> JNull | Some c \<Rightarrow> JStr c)),
                        (''uris'',
                           (case track_uris of
                              None \<Rightarrow> JNull
                            | Some s \<Rightarrow>
                                if s = [] then JNull
                                else JArr (map JStr (map strip (split CHR '','' s))))),
                        (''position_ms'',
                           (case position_ms of None \<Rightarrow> JNull | Some ms \<Rightarrow> JInt ms))])\<rparr>]"
    by (auto simp: start_playback_def spotify_put_sent api_request_def API_URL_def uri_list_def
        playback_uris_def env_str_def split: option.splits)
qed

text \<open>Three calls with a valid token: no \<open>track_uris\<close>, the empty string, and
  \<open>"spotify:track:1, spotify:track:2"\<close>.\<close>

theorem start_playback_uris_witness:
  "get_access_token sample_config
     \<lparr>clock_check = 50, token_reply = TransportError, clock_store = 50,
      api_reply = Reply \<lparr>status_code = 204, content = [], json_result = None\<rparr>\<rparr>
     \<lparr>access_token = JStr ''tok'', expires_at = Fin 100\<rparr>
     = (Inr (JStr ''tok''), \<lparr>access_token = JStr ''tok'', expires_at = Fin 100\<rparr>, [])
   \<and> snd (snd (start_playback sample_config
     \<lparr>clock_check = 50, token_reply = TransportError, clock_store = 50,
      api_reply = Reply \<lparr>status_code = 204, content = [], json_result = None\<rparr>\<rparr>
     \<lparr>access_token = JStr ''tok'', expires_at = Fin 100\<rparr> None None None))
     = [\<lparr>verb = PUT, url = ''https://api.spotify.com/v1/me/player/play'',
         auth = Some (JStr ''tok''),
         payload = Json (JObj [(''context_uri'', JNull), (''uris'', JNull),
                               (''position_ms'', JNull)])\<rparr>]
   \<and> snd (snd (start_playback sample_config
     \<lparr>clock_check = 50, token_reply = TransportError, clock_store = 50,
      api_reply = Reply \<lparr>status_code = 204, content = [], json_result = None\<rparr>\<rparr>
     \<lparr>access_token = JStr ''tok'', expires_at = Fin 100\<rparr> None (Some []) None))
     = [\<lparr>verb = PUT, url = ''https://api.spotify.com/v1/me/player/play'',
         auth = Some (JStr ''tok''),
         payload = Json (JObj [(''context_uri'', JNull), (''uris'', JNull),
                               (''position_ms'', JNull)])\<rparr>]
   \<and> snd (snd (start_playback sample_config
     \<lparr>clock_check = 50, token_reply = TransportError, clock_store = 50,
      api_reply = Reply \<lparr>status_code = 204, content = [], json_result = None\<rparr>\<rparr>
     \<lparr>access_token = JStr ''tok'', expires_at = Fin 100\<rparr>
     None (Some ''spotify:track:1, spotify:track:2'') (Some 0)))
     = [\<lparr>verb = PUT, url = ''https://api.spotify.com/v1/me/player/play'',
         auth = Some (JStr ''tok''),
         payload = Json (JObj [(''context_uri'', JNull),
                               (''uris'', JArr [JStr ''spotify:track:1'', JStr ''spotify:track:2'']),
                               (''position_ms'', JInt 0)])\<rparr>]"
proof -
  let ?e = "\<lparr>clock_check = 50, token_reply = TransportError, clock_store = 50,
      api_reply = Reply \<lparr>status_code = 204, content = [], json_result = None\<rparr>\<rparr>"
  let ?st = "\<lparr>access_token = JStr ''tok'', expires_at = Fin 100\<rparr>"
  have tok: "get_access_token sample_config ?e ?st = (Inr (JStr ''tok''), ?st, [])"
    by (simp add: get_access_token_def)
  have run: "snd (snd (start_playback sample_config ?e ?st c t p))
     = [\<lparr>verb = PUT, url = ''https://api.spotify.com/v1/me/player/play'',
         auth = Some (JStr ''tok''),
         payload = Json (JObj
           [(''context_uri'', (case c of None \<Rightarrow> JNull | Some c \<Rightarrow> JStr c)),
            (''uris'',
               (case t of
                  None \<Rightarrow> JNull
                | Some s \<Rightarrow>
                    if s = [] then JNull
                    else JArr (map JStr (map strip (split CHR '','' s))))),
            (''position_ms'', (case p of None \<Rightarrow> JNull | Some ms \<Rightarrow> JInt ms))])\<rparr>]"
    for c t p
    using start_playback_uris
      [where cfg = sample_config and e = ?e and st = ?st and token = "JStr ''tok''"
         and st' = ?st and sent = "[]" and context_uri = c and track_uris = t
         and position_ms = p]
      tok
    by simp
  show ?thesis
    using tok run [of None None None] run [of None "Some []" None]
      run [of None "Some ''spotify:track:1, spotify:track:2''" "Some 0"]
    by (simp add: strip_def isspace_def)
qed

section \<open>The tools run their cleaning on the decoded response\<close>

lemma search_spotify_normalizes:
  assumes "get_access_token cfg e st = (Inr token, st', sent)" and "api_reply e = Reply resp"
    and "is_success resp" and "json_result resp = Some raw"
  shows "fst (search_spotify cfg e st query search_type limit) = search_normalize search_type raw"
  using assms by (simp add: search_spotify_def spotify_get_with_token checked_json_success)

lemma artist_top_tracks_normalizes:
  assumes "get_access_token cfg e st = (Inr token, st', sent)" and "api_reply e = Reply resp"
    and "is_success resp" and "json_result resp = Some raw"
  shows "fst (artist_top_tracks cfg e st artist_id market) = artist_top_tracks_normalize raw"
  using assms by (simp add: artist_top_tracks_def spotify_get_with_token checked_json_success)

lemma current_user_top_tracks_normalizes:
  assumes "get_access_token cfg e st = (Inr token, st', sent)" and "api_reply e = Reply resp"
    and "is_success resp" and "json_result resp = Some raw"
  shows "fst (current_user_top_tracks cfg e st time_range limit)
           = current_user_top_tracks_normalize raw"
  using assms
  by (simp add: current_user_top_tracks_def spotify_get_with_token checked_json_success)

lemma get_playlist_items_normalizes:
  assumes "get_access_token cfg e st = (Inr token, st', sent)" and "api_reply e = Reply resp"
    and "is_success resp" and "json_result resp = Some raw"
  shows "fst (get_playlist_items cfg e st playlist_id limit offset)
           = get_playlist_items_normalize limit offset raw"
  using assms by (simp add: get_playlist_items_def spotify_get_with_token checked_json_success)

section \<open>search_spotify: the container and the items\<close>

lemma search_items_selected:
  "map_of kvs (search_type @ ''s'') = Some (JObj c) \<Longrightarrow> map_of c ''items'' = Some items \<Longrightarrow>
   search_items search_type (JObj kvs) = items"
  by (simp add: search_items_def and_then_def)

lemma search_items_absent:
  assumes "\<forall>kvs m. raw = JObj kvs \<and> map_of kvs (search_type @ ''s'') = Some (JObj m) \<longrightarrow>
             map_of m ''items'' = None"
  shows "search_items search_type raw = JArr []"
proof (cases raw)
  case (JObj kvs)
  show ?thesis
  proof (cases "map_of kvs (search_type @ ''s'')")
    case None
    with JObj show ?thesis by (simp add: search_items_def and_then_def)
  next
    case (Some c)
    show ?thesis
    proof (cases c)
      case (JObj m)
      with Some \<open>raw = JObj kvs\<close> have "map_of m ''items'' = None" using assms by simp
      with JObj Some \<open>raw = JObj kvs\<close> show ?thesis
        by (simp add: search_items_def and_then_def)
    qed (use Some \<open>raw = JObj kvs\<close> in \<open>simp_all add: search_items_def and_then_def\<close>)
  qed
qed (simp_all add: search_items_def and_then_def)

text \<open>
  C6. For \<open>search_type = "track"\<close> the items are read from the container \<open>"tracks"\<close>:
  whenever the document has an object under \<open>"tracks"\<close> with an \<open>"items"\<close> member,
  that member is what is cleaned. On the document of the specification the result is the
  one the specification gives, the artists flattened to their names.
\<close>

theorem search_normalize_track:
  "search_normalize ''track''
     (JObj [(''tracks'', JObj [(''items'', JArr
        [JObj [(''id'', JStr ''1''), (''name'', JStr ''Song''), (''uri'', JStr ''spotify:track:1''),
               (''artists'', JArr [JObj [(''name'', JStr ''A'')]]),
               (''album'', JObj [(''name'', JStr ''Alb'')])]])])])
     = Inr (JObj [(''type'', JStr ''track''),
                  (''items'', JArr
        [JObj [(''id'', JStr ''1''), (''name'', JStr ''Song''), (''uri'', JStr ''spotify:track:1''),
               (''artists'', JArr [JStr ''A'']), (''album'', JStr ''Alb'')]])])
   \<and> (map_of kvs ''tracks'' = Some (JObj c) \<and> map_of c ''items'' = Some items \<longrightarrow>
        search_items ''track'' (JObj kvs) = items)"
proof -
  have "map_of kvs ''tracks'' = Some (JObj c) \<and> map_of c ''items'' = Some items \<longrightarrow>
        search_items ''track'' (JObj kvs) = items"
    using search_items_selected [of kvs "''track''" c items] by simp
  then show ?thesis
    by (simp add: search_normalize_def search_items_def and_then_def search_item_def get_def
        names_of_def)
qed

theorem search_normalize_track_witness:
  "search_items ''track''
     (JObj [(''albums'', JObj [(''items'', JArr [JObj [(''id'', JStr ''7'')]])]),
            (''tracks'', JObj [(''items'', JArr [JObj [(''id'', JStr ''1'')]])])])
   = JArr [JObj [(''id'', JStr ''1'')]]"
  using search_normalize_track
    [of "[(''albums'', JObj [(''items'', JArr [JObj [(''id'', JStr ''7'')]])]),
          (''tracks'', JObj [(''items'', JArr [JObj [(''id'', JStr ''1'')]])])]"
        "[(''items'', JArr [JObj [(''id'', JStr ''1'')]])]"
        "JArr [JObj [(''id'', JStr ''1'')]]"]
  by simp

text \<open>
  C7. When no \<open>"items"\<close> member can be reached under the container \<open>search_type + "s"\<close>
  (the document is not an object, or has no such container, or the container is not an
  object, or has no \<open>"items"\<close>), the result is \<open>{"type": search_type, "items": []}\<close> and
  nothing is raised.
\<close>

theorem search_absent_container_empty:
  assumes "\<forall>kvs m. raw = JObj kvs \<and> map_of kvs (search_type @ ''s'') = Some (JObj m) \<longrightarrow>
             map_of m ''items'' = None"
  shows "search_normalize search_type raw
           = Inr (JObj [(''type'', JStr search_type), (''items'', JArr [])])"
  using search_items_absent [OF assms] by (simp add: search_normalize_def and_then_def)

theorem search_absent_container_empty_witness:
  "search_normalize ''track''
     (JObj [(''albums'', JObj [(''items'', JArr [JObj [(''id'', JStr ''7'')]])])])
     = Inr (JObj [(''type'', JStr ''track''), (''items'', JArr [])])
   \<and> search_normalize ''track'' (JObj [(''tracks'', JObj [(''total'', JInt 0)])])
     = Inr (JObj [(''type'', JStr ''track''), (''items'', JArr [])])
   \<and> search_normalize ''track'' (JArr [])
     = Inr (JObj [(''type'', JStr ''track''), (''items'', JArr [])])"
  using
    search_absent_container_empty
      [of "JObj [(''albums'', JObj [(''items'', JArr [JObj [(''id'', JStr ''7'')]])])]" "''track''"]
    search_absent_container_empty
      [of "JObj [(''tracks'', JObj [(''total'', JInt 0)])]" "''track''"]
    search_absent_container_empty [of "JArr []" "''track''"]
  by simp

section \<open>The fields of a cleaned record\<close>

lemma get_object: "get (JObj kvs) k = Inr (field_or_null kvs k)"
  by (simp add: get_def)

lemma names_of_objects:
  "names_of (JArr (map JObj ms)) = Inr (JArr (map (\<lambda>m. field_or_null m ''name'') ms))"
proof -
  have "map_err (\<lambda>a. get a ''name'') (map JObj ms) = Inr (map (\<lambda>m. field_or_null m ''name'') ms)"
    by (induction ms) (simp_all add: get_object)
  then show ?thesis by (simp add: names_of_def and_then_def)
qed

lemma map_JObj_eq: "(map JObj ms = map JObj ms') = (ms = ms')"
  by (rule inj_map_eq_map) (simp add: inj_def)

lemma search_item_fields:
  assumes "map_of kvs ''artists'' = None \<or> map_of kvs ''artists'' = Some (JArr (map JObj ms))"
    and "map_of kvs ''album'' = None \<or> map_of kvs ''album'' = Some (JObj m)"
  shows "\<exists>ar al.
      search_item (JObj kvs)
        = Inr (JObj [(''id'', field_or_null kvs ''id''), (''name'', field_or_null kvs ''name''),
                     (''uri'', field_or_null kvs ''uri''), (''artists'', ar), (''album'', al)])
      \<and> (map_of kvs ''artists'' = None \<longrightarrow> ar = JNull)
      \<and> (map_of kvs ''artists'' = Some (JArr (map JObj ms)) \<longrightarrow>
             ar = (if ms = [] then JNull else JArr (map (\<lambda>m. field_or_null m ''name'') ms)))
      \<and> (map_of kvs ''album'' = None \<longrightarrow> al = JNull)
      \<and> (map_of kvs ''album'' = Some (JObj m) \<longrightarrow> al = field_or_null m ''name'')"
  using assms
  by (auto simp: search_item_def and_then_def get_object names_of_objects map_JObj_eq)

lemma top_track_item_fields:
  assumes "map_of kvs ''artists'' = None \<or> map_of kvs ''artists'' = Some (JArr (map JObj ms))"
    and "map_of kvs ''album'' = None \<or> map_of kvs ''album'' = Some (JObj m)"
  shows "\<exists>ar al.
      top_track_item (JObj kvs)
        = Inr (JObj [(''id'', field_or_null kvs ''id''), (''name'', field_or_null kvs ''name''),
                     (''uri'', field_or_null kvs ''uri''), (''artists'', ar), (''album'', al),
                     (''popularity'', field_or_null kvs ''popularity'')])
      \<and> (map_of kvs ''artists'' = None \<longrightarrow> ar = JArr [])
      \<and> (map_of kvs ''artists'' = Some (JArr (map JObj ms)) \<longrightarrow>
             ar = JArr (map (\<lambda>m. field_or_null m ''name'') ms))
      \<and> (map_of kvs ''album'' = None \<longrightarrow> al = JNull)
      \<and> (map_of kvs ''album'' = Some (JObj m) \<longrightarrow> al = field_or_null m ''name'')"
  using assms names_of_objects [of "[]"]
  by (auto simp: top_track_item_def and_then_def get_object names_of_objects map_JObj_eq)

lemma ranked_item_fields:
  assumes "map_of kvs ''artists'' = None \<or> map_of kvs ''artists'' = Some (JArr (map JObj ms))"
    and "map_of kvs ''album'' = None \<or> map_of kvs ''album'' = Some (JObj m)"
  shows "\<exists>ar al.
      ranked_item (idx, JObj kvs)
        = Inr (JObj [(''rank'', JInt idx), (''id'', field_or_null kvs ''id''),
                     (''name'', field_or_null kvs ''name''), (''uri'', field_or_null kvs ''uri''),
                     (''artists'', ar), (''album'', al)])
      \<and> (map_of kvs ''artists'' = None \<longrightarrow> ar = JArr [])
      \<and> (map_of kvs ''artists'' = Some (JArr (map JObj ms)) \<longrightarrow>
             ar = JArr (map (\<lambda>m. field_or_null m ''name'') ms))
      \<and> (map_of kvs ''album'' = None \<longrightarrow> al = JNull)
      \<and> (map_of kvs ''album'' = Some (JObj m) \<longrightarrow> al = field_or_null m ''name'')"
  using assms names_of_objects [of "[]"]
  by (auto simp: ranked_item_def and_then_def get_object names_of_objects map_JObj_eq)

lemma playlist_entry_needs_fields:
  assumes "map_of en ''track'' = Some (JObj t)"
    and "k \<in> {''id'', ''name'', ''uri'', ''artists'', ''album'', ''explicit''}"
    and "map_of t k = None"
  shows "isl (playlist_entry (JObj en))"
  using assms
  by (auto simp: playlist_entry_def and_then_def split: sum.splits option.splits)

text \<open>
  C9, as the code has it. \<open>search_spotify\<close>, \<open>artist_top_tracks\<close> and
  \<open>current_user_top_tracks\<close> read a record with \<open>get\<close>. For a record that is an object,
  whose \<open>artists\<close> are absent or a list of objects and whose \<open>album\<close> is absent or an
  object, nothing is raised and every field of the output is there: \<open>id\<close>, \<open>name\<close>, \<open>uri\<close>
  (and \<open>popularity\<close>) with the record's value, or \<open>None\<close> where the record has none;
  \<open>album\<close> with the album's name, or \<open>None\<close>; \<open>artists\<close> with the artists' names, and for
  a record without artists \<open>None\<close> in \<open>search_spotify\<close> (also for an empty list) and the
  empty list in the other two. \<open>get_playlist_items\<close> reads with \<open>[]\<close>: a track that lacks
  one of its six fields raises.
\<close>

theorem normalizers_default_missing_fields:
  assumes "map_of kvs ''artists'' = None \<or> map_of kvs ''artists'' = Some (JArr (map JObj ms))"
    and "map_of kvs ''album'' = None \<or> map_of kvs ''album'' = Some (JObj m)"
  shows
   "(\<exists>ar al.
      search_item (JObj kvs)
        = Inr (JObj [(''id'', field_or_null kvs ''id''), (''name'', field_or_null kvs ''name''),
                     (''uri'', field_or_null kvs ''uri''), (''artists'', ar), (''album'', al)])
      \<and> (map_of kvs ''artists'' = None \<longrightarrow> ar = JNull)
      \<and> (map_of kvs ''artists'' = Some (JArr (map JObj ms)) \<longrightarrow>
             ar = (if ms = [] then JNull else JArr (map (\<lambda>m. field_or_null m ''name'') ms)))
      \<and> (map_of kvs ''album'' = None \<longrightarrow> al = JNull)
      \<and> (map_of kvs ''album'' = Some (JObj m) \<longrightarrow> al = field_or_null m ''name''))
    \<and> (\<exists>ar al.
      top_track_item (JObj kvs)
        = Inr (JObj [(''id'', field_or_null kvs ''id''), (''name'', field_or_null kvs ''name''),
                     (''uri'', field_or_null kvs ''uri''), (''artists'', ar), (''album'', al),
                     (''popularity'', field_or_null kvs ''popularity'')])
      \<and> (map_of kvs ''artists'' = None \<longrightarrow> ar = JArr [])
      \<and> (map_of kvs ''artists'' = Some (JArr (map JObj ms)) \<longrightarrow>
             ar = JArr (map (\<lambda>m. field_or_null m ''name'') ms))
      \<and> (map_of kvs ''album'' = None \<longrightarrow> al = JNull)
      \<and> (map_of kvs ''album'' = Some (JObj m) \<longrightarrow> al = field_or_null m ''name''))
    \<and> (\<exists>ar al.
      ranked_item (idx, JObj kvs)
        = Inr (JObj [(''rank'', JInt idx), (''id'', field_or_null kvs ''id''),
                     (''name'', field_or_null kvs ''name''), (''uri'', field_or_null kvs ''uri''),
                     (''artists'', ar), (''album'', al)])
      \<and> (map_of kvs ''artists'' = None \<longrightarrow> ar = JArr [])
      \<and> (map_of kvs ''artists'' = Some (JArr (map JObj ms)) \<longrightarrow>
             ar = JArr (map (\<lambda>m. field_or_null m ''name'') ms))
      \<and> (map_of kvs ''album'' = None \<longrightarrow> al = JNull)
      \<and> (map_of kvs ''album'' = Some (JObj m) \<longrightarrow> al = field_or_null m ''name''))
    \<and> (map_of en ''track'' = Some (JObj kvs)
        \<and> k \<in> {''id'', ''name'', ''uri'', ''artists'', ''album'', ''explicit''}
        \<and> map_of kvs k = None \<longrightarrow> isl (playlist_entry (JObj en)))"
proof (intro conjI impI)
  show "isl (playlist_entry (JObj en))"
    if "map_of en ''track'' = Some (JObj kvs)
        \<and> k \<in> {''id'', ''name'', ''uri'', ''artists'', ''album'', ''explicit''}
        \<and> map_of kvs k = None"
    using that playlist_entry_needs_fields [of en kvs k] by (elim conjE)
qed (rule search_item_fields [OF assms] top_track_item_fields [OF assms]
      ranked_item_fields [OF assms])+

theorem normalizers_default_missing_fields_witness:
  "search_item (JObj [(''id'', JStr ''1''), (''uri'', JStr ''spotify:track:1'')])
     = Inr (JObj [(''id'', JStr ''1''), (''name'', JNull), (''uri'', JStr ''spotify:track:1''),
                  (''artists'', JNull), (''album'', JNull)])
   \<and> top_track_item (JObj [(''id'', JStr ''1''), (''uri'', JStr ''spotify:track:1'')])
     = Inr (JObj [(''id'', JStr ''1''), (''name'', JNull), (''uri'', JStr ''spotify:track:1''),
                  (''artists'', JArr []), (''album'', JNull), (''popularity'', JNull)])
   \<and> ranked_item (1, JObj [(''id'', JStr ''1''), (''uri'', JStr ''spotify:track:1'')])
     = Inr (JObj [(''rank'', JInt 1), (''id'', JStr ''1''), (''name'', JNull),
                  (''uri'', JStr ''spotify:track:1''), (''artists'', JArr []), (''album'', JNull)])
   \<and> isl (playlist_entry
        (JObj [(''track'', JObj [(''id'', JStr ''1''), (''uri'', JStr ''spotify:track:1'')])]))
   \<and> search_item (JObj [(''name'', JStr ''Song''),
        (''artists'', JArr [JObj [(''name'', JStr ''A'')], JObj [(''id'', JStr ''b'')]]),
        (''album'', JObj [(''name'', JStr ''Alb'')])])
     = Inr (JObj [(''id'', JNull), (''name'', JStr ''Song''), (''uri'', JNull),
                  (''artists'', JArr [JStr ''A'', JNull]), (''album'', JStr ''Alb'')])"
  using
    normalizers_default_missing_fields
      [where kvs = "[(''id'', JStr ''1''), (''uri'', JStr ''spotify:track:1'')]"
         and ms = "[]" and m = "[]"
         and en = "[(''track'', JObj [(''id'', JStr ''1''), (''uri'', JStr ''spotify:track:1'')])]"
         and k = "''name''" and idx = 1]
    normalizers_default_missing_fields
      [where kvs = "[(''name'', JStr ''Song''),
            (''artists'', JArr [JObj [(''name'', JStr ''A'')], JObj [(''id'', JStr ''b'')]]),
            (''album'', JObj [(''name'', JStr ''Alb'')])]"
         and ms = "[[(''name'', JStr ''A'')], [(''id'', JStr ''b'')]]"
         and m = "[(''name'', JStr ''Alb'')]"
         and en = "[]" and k = "''id''" and idx = 1]
  by simp

text \<open>
  C9 as stated fails for \<open>get_playlist_items\<close>: a track without \<open>uri\<close> gives no record
  with a null \<open>uri\<close> but a \<open>KeyError\<close>.
\<close>

theorem get_playlist_items_missing_uri_counterexample:
  "get_playlist_items_normalize 10 0
     (JObj [(''items'', JArr
        [JObj [(''track'', JObj
           [(''id'', JStr ''1''), (''name'', JStr ''Song''),
            (''artists'', JArr [JObj [(''name'', JStr ''A'')]]),
            (''album'', JObj [(''name'', JStr ''Alb'')]),
            (''explicit'', JBool False)])]]),
       (''total'', JInt 1)])
   = Inl (KeyError ''uri'')"
  by (simp add: get_playlist_items_normalize_def playlist_entry_def and_then_def)

end
